theory Spec2Isabelle
  imports Main "HOL-Library.Word"
begin

section \<open>The core-file target of GDB (gdb/corelow.c)\<close>

text \<open>
  A shallow embedding of the functions of corelow.c: the handler registry and its
  sniffer, the walk over the container's sections that builds the thread list, the
  opening of a core file with its cleanup chain, the reading of a register section
  and the partial-transfer entry point.  Every global the C code reads or writes
  (the target stack, \<^verbatim>\<open>core_bfd\<close>, \<^verbatim>\<open>inferior_ptid\<close>, the inferior and thread
  registries, allocated memory) is a field of an explicit state; \<^verbatim>\<open>error ()\<close> is a
  value of a sum type; \<^verbatim>\<open>warning ()\<close> appends to a list of messages.
\<close>

subsection \<open>Data of the container parser and of the architecture\<close>

type_synonym byte = "8 word"

text \<open>\<^verbatim>\<open>asection\<close>: the fields of a BFD section that corelow.c looks at.\<close>

record asection =
  sec_name :: string
  sec_filepos :: int
  sec_size :: nat
  sec_vma :: nat

text \<open>
  \<^verbatim>\<open>struct regset\<close>: \<open>regset_variable_size\<close> is the bit that
  \<^verbatim>\<open>regset->flags & REGSET_VARIABLE_SIZE\<close> tests.
\<close>

record regset =
  regset_variable_size :: bool

text \<open>
  One call that the architecture's iterator makes to its callback: the section name,
  the size, the register set and the human-readable name (the last two may be null).
\<close>

type_synonym regset_section = "string \<times> int \<times> regset option \<times> string option"

text \<open>
  \<^verbatim>\<open>struct gdbarch\<close>: the optional methods of the architecture that corelow.c
  tests with the \<^verbatim>\<open>_p\<close> predicates.  A method that is present is \<open>Some\<close>; the
  register-set iterator is the list of the calls it makes to its callback, in order;
  the shared-library extractors take the offset and the length and give the bytes they
  put into the read buffer.
\<close>

record gdbarch =
  iterate_over_regset_sections :: "regset_section list option"
  core_xfer_shared_libraries :: "(nat \<Rightarrow> nat \<Rightarrow> byte list) option"
  core_xfer_shared_libraries_aix :: "(nat \<Rightarrow> nat \<Rightarrow> byte list) option"
  gdb_signal_from_target :: "(int \<Rightarrow> int) option"

definition iterate_over_regset_sections_p :: "gdbarch \<Rightarrow> bool" where
  "iterate_over_regset_sections_p g = (iterate_over_regset_sections g \<noteq> None)"

text \<open>
  \<^verbatim>\<open>bfd\<close>: what the container parser reports of an opened file.  \<open>bfd_is_core\<close> is
  the answer of \<^verbatim>\<open>bfd_check_format (abfd, bfd_core)\<close>, \<open>bfd_gdbarch\<close> the answer of
  \<^verbatim>\<open>gdbarch_from_bfd\<close>, \<open>bfd_core_file_pid\<close> that of the macro of the same name,
  and \<open>bfd_contents sec off n\<close> the answer of \<^verbatim>\<open>bfd_get_section_contents\<close> for
  \<open>n\<close> bytes at offset \<open>off\<close> of a section (\<open>None\<close> when it fails); the last two
  fields are the failing command and the failing signal the file records.  The parser is
  not part of corelow.c, so its answers are data of the model.
\<close>

record bfd =
  bfd_handle :: nat
  bfd_filename :: string
  bfd_sections :: "asection list"
  bfd_is_core :: bool
  bfd_flavour :: nat
  bfd_big_endian :: bool
  bfd_core_file_pid :: int
  bfd_gdbarch :: "gdbarch option"
  bfd_contents :: "asection \<Rightarrow> nat \<Rightarrow> nat \<Rightarrow> byte list option"
  bfd_core_file_failing_command :: "string option"
  bfd_core_file_failing_signal :: int

text \<open>
  \<^verbatim>\<open>struct core_fns\<close>: a registered handler.  The C sniffer takes the handler
  itself as first argument; here it is closed over.  The decoder writes into the
  register cache, which belongs to another file: \<open>core_read_registers\<close> says whether
  the pointer is set, and a call of the decoder is recorded with its arguments.
\<close>

record core_fns =
  core_flavour :: nat
  check_format :: "bfd \<Rightarrow> bool"
  core_sniffer :: "bfd \<Rightarrow> bool"
  core_read_registers :: bool

datatype error =
    NoCoreFileSpecified
  | OpenFailed string
  | NotACore string
  | UnrecognizedFormat string
  | SectionTableError string
  | ProgramNotKilled
  | PostCreateFailed
  | NullPointerUsed
  | InternalError

datatype message =
    AmbiguousCoreFormat string nat
  | CouldntFindRegisters string
  | SectionTooSmall string
  | UnexpectedSectionSize string
  | CouldntReadRegisters string string
  | CouldntReadAuxv
  | CouldntReadWcookie
  | CouldntReadSpu
  | CoreWasGeneratedBy string
  | ProgramTerminatedWithSignal int
  | CantFetchRegisters

subsection \<open>The format registry\<close>

text \<open>
  \<^verbatim>\<open>core_file_fns\<close> is a linked list; the model is the list of its elements in
  traversal order.  \<^verbatim>\<open>deprecated_add_core_fns\<close> links the new handler in front.
\<close>

definition deprecated_add_core_fns :: "core_fns \<Rightarrow> core_fns list \<Rightarrow> core_fns list" where
  "deprecated_add_core_fns cf core_file_fns = cf # core_file_fns"

definition default_core_sniffer :: "core_fns \<Rightarrow> bfd \<Rightarrow> bool" where
  "default_core_sniffer our_fns abfd = (bfd_flavour abfd = core_flavour our_fns)"

text \<open>
  The loop of \<^verbatim>\<open>sniff_core_bfd\<close>, with its two variables \<^verbatim>\<open>yummy\<close> and
  \<^verbatim>\<open>matches\<close>.  The counter is a C \<^verbatim>\<open>int\<close>; it counts elements of a list in
  memory and is modelled by a natural number.
\<close>

fun sniff_loop :: "core_fns list \<Rightarrow> bfd \<Rightarrow> core_fns option \<Rightarrow> nat \<Rightarrow> core_fns option \<times> nat" where
  "sniff_loop [] abfd yummy matches = (yummy, matches)"
| "sniff_loop (cf # rest) abfd yummy matches =
     (if core_sniffer cf abfd
      then sniff_loop rest abfd (Some cf) (matches + 1)
      else sniff_loop rest abfd yummy matches)"

definition sniff_core_bfd ::
  "core_fns list \<Rightarrow> bfd \<Rightarrow> gdbarch option \<Rightarrow> (error + core_fns option) \<times> message list" where
  "sniff_core_bfd core_file_fns abfd core_gdbarch =
     (if (case core_gdbarch of None \<Rightarrow> False | Some g \<Rightarrow> iterate_over_regset_sections_p g)
      then (Inr None, [])
      else
        (case sniff_loop core_file_fns abfd None 0 of
          (yummy, matches) \<Rightarrow>
            if matches > 1
            then (Inr yummy, [AmbiguousCoreFormat (bfd_filename abfd) matches])
            else if matches = 0
            then (Inl (UnrecognizedFormat (bfd_filename abfd)), [])
            else (Inr yummy, [])))"

definition default_check_format :: "bfd \<Rightarrow> bool" where
  "default_check_format abfd = False"

fun gdb_check_format :: "core_fns list \<Rightarrow> bfd \<Rightarrow> bool" where
  "gdb_check_format [] abfd = False"
| "gdb_check_format (cf # rest) abfd =
     (if check_format cf abfd then True else gdb_check_format rest abfd)"

text \<open>The handlers of the registry that accept a container, in traversal order.\<close>

definition accepting :: "core_fns list \<Rightarrow> bfd \<Rightarrow> core_fns list" where
  "accepting core_file_fns abfd = filter (\<lambda>cf. core_sniffer cf abfd) core_file_fns"

subsection \<open>C library and BFD helpers used on section names\<close>

definition startswith :: "string \<Rightarrow> string \<Rightarrow> bool" where
  "startswith s pattern = (take (length pattern) s = pattern)"

definition is_space :: "char \<Rightarrow> bool" where
  "is_space c = (c \<in> set [CHR '' '', CHR 0x09, CHR 0x0A, CHR 0x0B, CHR 0x0C, CHR 0x0D])"

definition is_digit :: "char \<Rightarrow> bool" where
  "is_digit c = (48 \<le> (of_char c :: nat) \<and> (of_char c :: nat) \<le> 57)"

fun digits_value :: "string \<Rightarrow> int \<Rightarrow> int" where
  "digits_value [] acc = acc"
| "digits_value (c # cs) acc = digits_value cs (acc * 10 + (int (of_char c) - 48))"

text \<open>
  The value of a decimal subject sequence as \<^verbatim>\<open>strtol\<close> reads it on an LP64 host: a
  value outside \<^verbatim>\<open>long\<close> is clamped to \<^verbatim>\<open>LONG_MIN\<close> or \<^verbatim>\<open>LONG_MAX\<close>, and the
  conversion to \<^verbatim>\<open>int\<close> keeps the low 32 bits.
\<close>

definition clamp_long :: "int \<Rightarrow> int" where
  "clamp_long v = max (- (2 ^ 63)) (min (2 ^ 63 - 1) v)"

definition int_of_long :: "int \<Rightarrow> int" where
  "int_of_long v = (v + 2 ^ 31) mod 2 ^ 32 - 2 ^ 31"

text \<open>
  An optionally signed decimal integer after optional white space, as \<^verbatim>\<open>strtol\<close>
  and the \<^verbatim>\<open>%d\<close> of \<^verbatim>\<open>sscanf\<close> read it: the \<^verbatim>\<open>int\<close> read and the rest of the
  input, or \<open>None\<close> when there is no digit.
\<close>

definition scan_int :: "string \<Rightarrow> (int \<times> string) option" where
  "scan_int s =
     (let s1 = dropWhile is_space s;
          neg = (case s1 of [] \<Rightarrow> False | c # _ \<Rightarrow> c = CHR ''-'');
          s2 = (case s1 of [] \<Rightarrow> []
                 | c # r \<Rightarrow> if c = CHR ''-'' \<or> c = CHR ''+'' then r else s1);
          ds = takeWhile is_digit s2;
          v = digits_value ds 0
      in if ds = [] then None
         else Some (int_of_long (clamp_long (if neg then - v else v)), dropWhile is_digit s2))"

definition atoi :: "string \<Rightarrow> int" where
  "atoi s = (case scan_int s of None \<Rightarrow> 0 | Some (v, _) \<Rightarrow> v)"

text \<open>
  \<^verbatim>\<open>sscanf (name, "SPU/%d/regs%n", &fd, &pos)\<close>: the value stored in \<^verbatim>\<open>fd\<close> (if the
  conversion got that far) and the value of \<^verbatim>\<open>pos\<close>, which stays 0 unless the
  whole format matched and is then the number of characters consumed.
\<close>

definition sscanf_SPU_regs :: "string \<Rightarrow> int option \<times> nat" where
  "sscanf_SPU_regs s =
     (if take 4 s \<noteq> ''SPU/'' then (None, 0)
      else
        (case scan_int (drop 4 s) of
          None \<Rightarrow> (None, 0)
        | Some (fd, rest) \<Rightarrow>
            if take 5 rest = ''/regs'' then (Some fd, length s - length rest + 5)
            else (Some fd, 0)))"

text \<open>The \<^verbatim>\<open>%ld\<close> of \<^verbatim>\<open>xstrprintf\<close>.\<close>

fun dec_digits :: "nat \<Rightarrow> string" where
  "dec_digits n =
     (if n < 10 then [''0123456789'' ! n]
      else dec_digits (n div 10) @ [''0123456789'' ! (n mod 10)])"

declare dec_digits.simps [simp del]

definition printf_ld :: "int \<Rightarrow> string" where
  "printf_ld v = (if v < 0 then CHR ''-'' # dec_digits (nat (- v)) else dec_digits (nat v))"

text \<open>
  \<^verbatim>\<open>bfd_get_section_by_name\<close>: the first section of the container with that name.
  \<^verbatim>\<open>bfd_map_over_sections\<close>: the callback on every section, in container order.
\<close>

definition bfd_get_section_by_name :: "bfd \<Rightarrow> string \<Rightarrow> asection option" where
  "bfd_get_section_by_name abfd name = find (\<lambda>a. sec_name a = name) (bfd_sections abfd)"

definition bfd_map_over_sections :: "bfd \<Rightarrow> (bfd \<Rightarrow> asection \<Rightarrow> 'st \<Rightarrow> 'st) \<Rightarrow> 'st \<Rightarrow> 'st" where
  "bfd_map_over_sections abfd func st = fold (func abfd) (bfd_sections abfd) st"

text \<open>
  \<^verbatim>\<open>store_unsigned_integer (addr, len, byte_order, val)\<close>: the \<open>len\<close> low-order bytes of
  \<open>val\<close>, most significant first when the order is big-endian.
\<close>

definition store_unsigned_integer :: "nat \<Rightarrow> bool \<Rightarrow> nat \<Rightarrow> byte list" where
  "store_unsigned_integer len big val =
     (if big then map (\<lambda>i. of_nat (val div 256 ^ (len - 1 - i))) [0..<len]
      else map (\<lambda>i. of_nat (val div 256 ^ i)) [0..<len])"

text \<open>Writing bytes into a buffer from an index on; the buffer keeps its length.\<close>

fun store_bytes :: "byte list \<Rightarrow> nat \<Rightarrow> byte list \<Rightarrow> byte list" where
  "store_bytes buf i [] = buf"
| "store_bytes buf i (b # bs) = store_bytes (buf[i := b]) (Suc i) bs"

text \<open>Conversions between \<^verbatim>\<open>ULONGEST\<close> (a natural number below \<open>2 ^ 64\<close>) and \<^verbatim>\<open>LONGEST\<close>.\<close>

definition LONGEST_of :: "nat \<Rightarrow> int" where
  "LONGEST_of n = (int n + 2 ^ 63) mod 2 ^ 64 - 2 ^ 63"

definition ULONGEST_of :: "int \<Rightarrow> nat" where
  "ULONGEST_of v = nat (v mod 2 ^ 64)"

subsection \<open>Thread identifiers\<close>

record ptid_t =
  ptid_pid :: int
  ptid_lwp :: int
  ptid_tid :: int

definition ptid_build :: "int \<Rightarrow> int \<Rightarrow> int \<Rightarrow> ptid_t" where
  "ptid_build pid lwp tid = \<lparr>ptid_pid = pid, ptid_lwp = lwp, ptid_tid = tid\<rparr>"

definition null_ptid :: ptid_t where
  "null_ptid = ptid_build 0 0 0"

definition pid_to_ptid :: "int \<Rightarrow> ptid_t" where
  "pid_to_ptid pid = ptid_build pid 0 0"

definition CORELOW_PID :: int where
  "CORELOW_PID = 1"

subsection \<open>The session data of the core target\<close>

text \<open>
  \<^verbatim>\<open>struct core_target_ops_with_data\<close>.  \<open>cops_addr\<close> is the address of the
  allocated object, \<open>core_data_addr\<close> the pointer \<^verbatim>\<open>core_data.sections\<close> (\<open>None\<close> is
  \<^verbatim>\<open>NULL\<close>) and \<open>core_data\<close> the entries of the table it points to.
\<close>

record cops =
  cops_addr :: nat
  core_vec :: "core_fns option"
  core_gdbarch :: "gdbarch option"
  core_data_addr :: "nat option"
  core_data :: "asection list"

subsection \<open>The partial-transfer entry point\<close>

datatype target_xfer_status = TARGET_XFER_OK | TARGET_XFER_EOF | TARGET_XFER_E_IO

datatype target_object =
    TARGET_OBJECT_MEMORY
  | TARGET_OBJECT_AUXV
  | TARGET_OBJECT_WCOOKIE
  | TARGET_OBJECT_LIBRARIES
  | TARGET_OBJECT_LIBRARIES_AIX
  | TARGET_OBJECT_SPU
  | TARGET_OBJECT_SIGNAL_INFO
  | TARGET_OBJECT_OTHER nat

text \<open>
  What a call of \<^verbatim>\<open>to_xfer_partial\<close> leaves behind: the status returned, the value
  stored through \<^verbatim>\<open>xfered_len\<close> (\<open>None\<close> when nothing was stored), the read buffer
  (\<open>None\<close> when the caller passed \<^verbatim>\<open>NULL\<close>) and the warnings printed.
\<close>

record xfer_result =
  xr_status :: target_xfer_status
  xr_xfered_len :: "nat option"
  xr_readbuf :: "byte list option"
  xr_warnings :: "message list"

definition xfer_return :: "target_xfer_status \<Rightarrow> byte list option \<Rightarrow> xfer_result" where
  "xfer_return st readbuf =
     \<lparr>xr_status = st, xr_xfered_len = None, xr_readbuf = readbuf, xr_warnings = []\<rparr>"

text \<open>
  The functions of other files that \<^verbatim>\<open>core_xfer_partial\<close> hands a request to: the
  read side of the memory service and the \<^verbatim>\<open>to_xfer_partial\<close> of the target
  beneath.
\<close>

record xfer_externals =
  memory_read :: "asection list \<Rightarrow> byte list option \<Rightarrow> nat \<Rightarrow> nat \<Rightarrow> xfer_result"
  beneath_xfer_partial ::
    "target_object \<Rightarrow> string option \<Rightarrow> byte list option \<Rightarrow> byte list option \<Rightarrow> nat \<Rightarrow> nat
       \<Rightarrow> xfer_result"

text \<open>
  Modelled from the spec: \<^verbatim>\<open>section_table_xfer_memory_partial\<close> is defined in exec.c,
  which is not among the sources.  The specification of the memory service (4.4)
  says: ``Writes are unconditionally rejected (writable core-file opening is
  permitted at the container level but no write path reaches memory here)''.  The
  read walk over the section table is left to \<open>memory_read\<close>.
\<close>

definition section_table_xfer_memory_partial ::
  "xfer_externals \<Rightarrow> byte list option \<Rightarrow> byte list option \<Rightarrow> nat \<Rightarrow> nat \<Rightarrow> asection list
     \<Rightarrow> xfer_result" where
  "section_table_xfer_memory_partial ext readbuf writebuf offset len sections =
     (if writebuf \<noteq> None then xfer_return TARGET_XFER_E_IO readbuf
      else memory_read ext sections readbuf offset len)"

text \<open>
  The block that \<^verbatim>\<open>core_xfer_partial\<close> repeats for \<^verbatim>\<open>.auxv\<close>, \<^verbatim>\<open>.wcookie\<close> and
  \<^verbatim>\<open>SPU/<annex>\<close>: the section's bytes from \<open>offset\<close> on, at most \<open>len\<close> of them.
\<close>

definition xfer_named_section ::
  "bfd \<Rightarrow> string \<Rightarrow> message \<Rightarrow> byte list \<Rightarrow> nat \<Rightarrow> nat \<Rightarrow> xfer_result" where
  "xfer_named_section cbfd name msg readbuf offset len =
     (case bfd_get_section_by_name cbfd name of
       None \<Rightarrow> xfer_return TARGET_XFER_E_IO (Some readbuf)
     | Some section \<Rightarrow>
         let size = sec_size section in
         if offset \<ge> size then xfer_return TARGET_XFER_EOF (Some readbuf)
         else
           let size = size - offset;
               size = (if size > len then len else size)
           in if size = 0 then xfer_return TARGET_XFER_EOF (Some readbuf)
              else
                (case bfd_contents cbfd section offset size of
                  None \<Rightarrow>
                    \<lparr>xr_status = TARGET_XFER_E_IO, xr_xfered_len = None,
                     xr_readbuf = Some readbuf, xr_warnings = [msg]\<rparr>
                | Some bytes \<Rightarrow>
                    \<lparr>xr_status = TARGET_XFER_OK, xr_xfered_len = Some size,
                     xr_readbuf = Some (store_bytes readbuf 0 bytes), xr_warnings = []\<rparr>))"

text \<open>
  \<^verbatim>\<open>struct spuid_list\<close>.  The field \<^verbatim>\<open>len\<close> is a \<^verbatim>\<open>LONGEST\<close> whose only use adds it
  to a \<^verbatim>\<open>ULONGEST\<close>, which converts it back; the model keeps the \<^verbatim>\<open>ULONGEST\<close> that
  was assigned.  \<^verbatim>\<open>ULONGEST\<close> arithmetic is written with its wrap-around.
\<close>

record spuid_list =
  sl_buf :: "byte list"
  sl_offset :: nat
  sl_len :: nat
  sl_pos :: nat
  sl_written :: nat

definition add_to_spuid_list :: "bfd \<Rightarrow> asection \<Rightarrow> spuid_list \<Rightarrow> spuid_list" where
  "add_to_spuid_list abfd asect list =
     (case sscanf_SPU_regs (sec_name asect) of
       (fd_opt, pos) \<Rightarrow>
         if pos = 0 then list
         else
           (case fd_opt of
             None \<Rightarrow> list
           | Some fd \<Rightarrow>
               let list1 =
                 (if sl_pos list \<ge> sl_offset list
                     \<and> (sl_pos list + 4) mod 2 ^ 64 \<le> (sl_offset list + sl_len list) mod 2 ^ 64
                  then list\<lparr>sl_buf :=
                              store_bytes (sl_buf list) (sl_pos list - sl_offset list)
                                (store_unsigned_integer 4 (bfd_big_endian abfd) (ULONGEST_of fd)),
                            sl_written := (sl_written list + 4) mod 2 ^ 64\<rparr>
                  else list)
               in list1\<lparr>sl_pos := (sl_pos list1 + 4) mod 2 ^ 64\<rparr>))"

definition siginfo_section_name :: "ptid_t \<Rightarrow> string" where
  "siginfo_section_name ptid =
     (if ptid_lwp ptid \<noteq> 0
      then ''.note.linuxcore.siginfo'' @ ''/'' @ printf_ld (ptid_lwp ptid)
      else ''.note.linuxcore.siginfo'')"

text \<open>\<^verbatim>\<open>get_core_siginfo\<close>: the \<^verbatim>\<open>LONGEST\<close> returned and the read buffer afterwards.\<close>

definition get_core_siginfo :: "bfd \<Rightarrow> ptid_t \<Rightarrow> byte list \<Rightarrow> nat \<Rightarrow> nat \<Rightarrow> int \<times> byte list" where
  "get_core_siginfo abfd inferior_ptid readbuf offset len =
     (case bfd_get_section_by_name abfd (siginfo_section_name inferior_ptid) of
       None \<Rightarrow> (- 1, readbuf)
     | Some section \<Rightarrow>
         (case bfd_contents abfd section offset len of
           None \<Rightarrow> (- 1, readbuf)
         | Some bytes \<Rightarrow> (LONGEST_of len, store_bytes readbuf 0 bytes)))"

text \<open>
  The three cases of the \<^verbatim>\<open>switch\<close> that fall through into each other, last first.
  \<open>cops\<close>, \<open>cbfd\<close> and \<open>inferior_ptid\<close> are the values of \<^verbatim>\<open>get_core_target_ops ()\<close>,
  \<^verbatim>\<open>core_bfd\<close> and \<^verbatim>\<open>inferior_ptid\<close> at the call.  The section name \<^verbatim>\<open>SPU/<annex>\<close>
  is formatted into 100 bytes by \<^verbatim>\<open>xsnprintf\<close>, which asserts that it fits; the
  model covers the annexes that do.
\<close>

definition xfer_case_SPU ::
  "bfd \<Rightarrow> string option \<Rightarrow> byte list option \<Rightarrow> nat \<Rightarrow> nat \<Rightarrow> xfer_result" where
  "xfer_case_SPU cbfd annex readbuf offset len =
     (case readbuf of
       None \<Rightarrow> xfer_return TARGET_XFER_E_IO readbuf
     | Some rb \<Rightarrow>
         (case annex of
           Some a \<Rightarrow> xfer_named_section cbfd (''SPU/'' @ a) CouldntReadSpu rb offset len
         | None \<Rightarrow>
             let list = bfd_map_over_sections cbfd add_to_spuid_list
                          \<lparr>sl_buf = rb, sl_offset = offset, sl_len = len, sl_pos = 0,
                           sl_written = 0\<rparr>
             in if sl_written list = 0 then xfer_return TARGET_XFER_EOF (Some (sl_buf list))
                else \<lparr>xr_status = TARGET_XFER_OK, xr_xfered_len = Some (sl_written list),
                      xr_readbuf = Some (sl_buf list), xr_warnings = []\<rparr>))"

definition xfer_by_gdbarch ::
  "(nat \<Rightarrow> nat \<Rightarrow> byte list) \<Rightarrow> byte list option \<Rightarrow> byte list option \<Rightarrow> nat \<Rightarrow> nat
     \<Rightarrow> xfer_result" where
  "xfer_by_gdbarch extractor readbuf writebuf offset len =
     (if writebuf \<noteq> None then xfer_return TARGET_XFER_E_IO readbuf
      else
        let bytes = extractor offset len in
        \<lparr>xr_status = (if length bytes = 0 then TARGET_XFER_EOF else TARGET_XFER_OK),
         xr_xfered_len = Some (length bytes),
         xr_readbuf = map_option (\<lambda>rb. store_bytes rb 0 bytes) readbuf,
         xr_warnings = []\<rparr>)"

definition xfer_case_LIBRARIES_AIX ::
  "cops \<Rightarrow> bfd \<Rightarrow> string option \<Rightarrow> byte list option \<Rightarrow> byte list option \<Rightarrow> nat \<Rightarrow> nat
     \<Rightarrow> xfer_result" where
  "xfer_case_LIBRARIES_AIX cops cbfd annex readbuf writebuf offset len =
     (case core_gdbarch cops of
       None \<Rightarrow> xfer_case_SPU cbfd annex readbuf offset len
     | Some g \<Rightarrow>
         (case core_xfer_shared_libraries_aix g of
           None \<Rightarrow> xfer_case_SPU cbfd annex readbuf offset len
         | Some extractor \<Rightarrow> xfer_by_gdbarch extractor readbuf writebuf offset len))"

definition xfer_case_LIBRARIES ::
  "cops \<Rightarrow> bfd \<Rightarrow> string option \<Rightarrow> byte list option \<Rightarrow> byte list option \<Rightarrow> nat \<Rightarrow> nat
     \<Rightarrow> xfer_result" where
  "xfer_case_LIBRARIES cops cbfd annex readbuf writebuf offset len =
     (case core_gdbarch cops of
       None \<Rightarrow> xfer_case_LIBRARIES_AIX cops cbfd annex readbuf writebuf offset len
     | Some g \<Rightarrow>
         (case core_xfer_shared_libraries g of
           None \<Rightarrow> xfer_case_LIBRARIES_AIX cops cbfd annex readbuf writebuf offset len
         | Some extractor \<Rightarrow> xfer_by_gdbarch extractor readbuf writebuf offset len))"

fun core_xfer_partial ::
  "xfer_externals \<Rightarrow> cops \<Rightarrow> bfd \<Rightarrow> ptid_t \<Rightarrow> target_object \<Rightarrow> string option
     \<Rightarrow> byte list option \<Rightarrow> byte list option \<Rightarrow> nat \<Rightarrow> nat \<Rightarrow> xfer_result" where
  "core_xfer_partial ext cops cbfd inferior_ptid TARGET_OBJECT_MEMORY annex readbuf writebuf
       offset len =
     section_table_xfer_memory_partial ext readbuf writebuf offset len (core_data cops)"
| "core_xfer_partial ext cops cbfd inferior_ptid TARGET_OBJECT_AUXV annex readbuf writebuf
       offset len =
     (case readbuf of
       Some rb \<Rightarrow> xfer_named_section cbfd ''.auxv'' CouldntReadAuxv rb offset len
     | None \<Rightarrow> xfer_return TARGET_XFER_E_IO readbuf)"
| "core_xfer_partial ext cops cbfd inferior_ptid TARGET_OBJECT_WCOOKIE annex readbuf writebuf
       offset len =
     (case readbuf of
       Some rb \<Rightarrow> xfer_named_section cbfd ''.wcookie'' CouldntReadWcookie rb offset len
     | None \<Rightarrow> xfer_return TARGET_XFER_E_IO readbuf)"
| "core_xfer_partial ext cops cbfd inferior_ptid TARGET_OBJECT_LIBRARIES annex readbuf writebuf
       offset len =
     xfer_case_LIBRARIES cops cbfd annex readbuf writebuf offset len"
| "core_xfer_partial ext cops cbfd inferior_ptid TARGET_OBJECT_LIBRARIES_AIX annex readbuf
       writebuf offset len =
     xfer_case_LIBRARIES_AIX cops cbfd annex readbuf writebuf offset len"
| "core_xfer_partial ext cops cbfd inferior_ptid TARGET_OBJECT_SPU annex readbuf writebuf
       offset len =
     xfer_case_SPU cbfd annex readbuf offset len"
| "core_xfer_partial ext cops cbfd inferior_ptid TARGET_OBJECT_SIGNAL_INFO annex readbuf
       writebuf offset len =
     (case readbuf of
       Some rb \<Rightarrow>
         (case get_core_siginfo cbfd inferior_ptid rb offset len of
           (l, rb') \<Rightarrow>
             if l > 0
             then \<lparr>xr_status = TARGET_XFER_OK, xr_xfered_len = Some len,
                   xr_readbuf = Some rb', xr_warnings = []\<rparr>
             else xfer_return TARGET_XFER_E_IO (Some rb'))
     | None \<Rightarrow> xfer_return TARGET_XFER_E_IO readbuf)"
| "core_xfer_partial ext cops cbfd inferior_ptid (TARGET_OBJECT_OTHER k) annex readbuf writebuf
       offset len =
     beneath_xfer_partial ext (TARGET_OBJECT_OTHER k) annex readbuf writebuf offset len"

text \<open>
  The identifiers of the sections the \<^verbatim>\<open>sscanf\<close> of \<^verbatim>\<open>add_to_spuid_list\<close> accepts,
  in container order, and their 4-byte encodings one after the other.
\<close>

definition is_spu_regs :: "asection \<Rightarrow> bool" where
  "is_spu_regs a = (fst (sscanf_SPU_regs (sec_name a)) \<noteq> None \<and> snd (sscanf_SPU_regs (sec_name a)) \<noteq> 0)"

definition spu_ids :: "asection list \<Rightarrow> int list" where
  "spu_ids secs = map (\<lambda>a. the (fst (sscanf_SPU_regs (sec_name a)))) (filter is_spu_regs secs)"

definition spu_id_bytes :: "bool \<Rightarrow> int list \<Rightarrow> byte list" where
  "spu_id_bytes big ids = concat (map (\<lambda>fd. store_unsigned_integer 4 big (ULONGEST_of fd)) ids)"

text \<open>The slot of the \<open>i\<close>-th identifier lies within the requested window.\<close>

definition slot_in_window :: "nat \<Rightarrow> nat \<Rightarrow> nat \<Rightarrow> bool" where
  "slot_in_window offset len i = (offset \<le> 4 * i \<and> 4 * i + 4 \<le> offset + len)"

subsection \<open>Reading a register section\<close>

text \<open>
  The register cache belongs to another file; what \<^verbatim>\<open>get_core_register_section\<close>
  does to it is the call it makes: \<^verbatim>\<open>regset->supply_regset\<close> with the contents and
  the size, or the handler's \<^verbatim>\<open>core_read_registers\<close> with contents, size, \<^verbatim>\<open>which\<close>
  and the section's address.  Reading \<^verbatim>\<open>regset->flags\<close> through a null pointer, a
  failed \<^verbatim>\<open>gdb_assert\<close> and a call through a null \<^verbatim>\<open>core_read_registers\<close> end the
  call abnormally.
\<close>

datatype reg_effect =
    NothingSupplied
  | SuppliedByRegset regset "byte list" nat
  | SuppliedByCoreVec "byte list" nat int nat
  | NullRegsetDereferenced
  | AssertionFailed
  | NullDecoderCalled

record reg_section_result =
  rs_warnings :: "message list"
  rs_effect :: reg_effect

definition register_section_name :: "ptid_t \<Rightarrow> string \<Rightarrow> string" where
  "register_section_name inferior_ptid name =
     (if ptid_lwp inferior_ptid \<noteq> 0 then name @ ''/'' @ printf_ld (ptid_lwp inferior_ptid)
      else name)"

text \<open>
  \<open>min_size\<close> is an \<^verbatim>\<open>int\<close> and the size a \<^verbatim>\<open>bfd_size_type\<close>: the two comparisons
  convert \<open>min_size\<close> to the unsigned type.
\<close>

definition get_core_register_section ::
  "cops \<Rightarrow> bfd \<Rightarrow> ptid_t \<Rightarrow> regset option \<Rightarrow> string \<Rightarrow> int \<Rightarrow> int \<Rightarrow> string \<Rightarrow> bool
     \<Rightarrow> reg_section_result" where
  "get_core_register_section cops cbfd inferior_ptid regset name min_size which human_name
       required =
     (let section_name = register_section_name inferior_ptid name in
      case bfd_get_section_by_name cbfd section_name of
        None \<Rightarrow>
          \<lparr>rs_warnings = (if required then [CouldntFindRegisters human_name] else []),
           rs_effect = NothingSupplied\<rparr>
      | Some section \<Rightarrow>
          let size = sec_size section in
          if size < ULONGEST_of min_size
          then \<lparr>rs_warnings = [SectionTooSmall section_name], rs_effect = NothingSupplied\<rparr>
          else if size \<noteq> ULONGEST_of min_size \<and> regset = None
          then \<lparr>rs_warnings = [], rs_effect = NullRegsetDereferenced\<rparr>
          else
            let w = (case regset of
                       None \<Rightarrow> []
                     | Some rs \<Rightarrow>
                         if size \<noteq> ULONGEST_of min_size \<and> \<not> regset_variable_size rs
                         then [UnexpectedSectionSize section_name] else [])
            in
            (case bfd_contents cbfd section 0 size of
              None \<Rightarrow>
                \<lparr>rs_warnings = w @ [CouldntReadRegisters human_name name],
                 rs_effect = NothingSupplied\<rparr>
            | Some contents \<Rightarrow>
                (case regset of
                  Some rs \<Rightarrow> \<lparr>rs_warnings = w, rs_effect = SuppliedByRegset rs contents size\<rparr>
                | None \<Rightarrow>
                    (case core_vec cops of
                      None \<Rightarrow> \<lparr>rs_warnings = w, rs_effect = AssertionFailed\<rparr>
                    | Some cv \<Rightarrow>
                        \<lparr>rs_warnings = w,
                         rs_effect =
                           (if core_read_registers cv
                            then SuppliedByCoreVec contents size which (sec_vma section)
                            else NullDecoderCalled)\<rparr>))))"

text \<open>
  \<^verbatim>\<open>get_core_registers_cb\<close>, the callback given to the architecture's iterator.  A
  human-readable name that is still null is printed by \<^verbatim>\<open>%s\<close> as \<^verbatim>\<open>(null)\<close>.
\<close>

definition get_core_registers_cb ::
  "cops \<Rightarrow> bfd \<Rightarrow> ptid_t \<Rightarrow> regset_section \<Rightarrow> reg_section_result" where
  "get_core_registers_cb cops cbfd inferior_ptid call =
     (case call of
       (sect_name, sz, regset, human_name) \<Rightarrow>
         let required = (sect_name = ''.reg'');
             human_name1 =
               (case human_name of
                 Some h \<Rightarrow> h
               | None \<Rightarrow>
                   if sect_name = ''.reg'' then ''general-purpose''
                   else if sect_name = ''.reg2'' then ''floating-point''
                   else ''(null)'')
         in get_core_register_section cops cbfd inferior_ptid regset sect_name sz (- 1)
              human_name1 required)"

text \<open>
  The calls of \<^verbatim>\<open>get_core_register_section\<close> are made one after the other; one that
  ends abnormally is the last.
\<close>

definition abnormal :: "reg_effect \<Rightarrow> bool" where
  "abnormal e = (e = NullRegsetDereferenced \<or> e = AssertionFailed \<or> e = NullDecoderCalled)"

fun until_abnormal :: "reg_section_result list \<Rightarrow> reg_section_result list" where
  "until_abnormal [] = []"
| "until_abnormal (r # rs) = (if abnormal (rs_effect r) then [r] else r # until_abnormal rs)"

text \<open>
  \<^verbatim>\<open>get_core_registers\<close>: what is printed, and the calls made on the register cache.
  The final loop, which marks the registers still unknown as unavailable, acts on the
  register cache alone.

  Line 652 hands the architecture to \<^verbatim>\<open>gdbarch_iterate_over_regset_sections_p\<close>
  without the null test of line 642; the predicate is defined in gdbarch.c.
  Modelled from the spec: section 4.3 takes the iterator when the architecture
  descriptor provides one and the legacy decoder otherwise, so an absent architecture
  goes to the legacy branch.
\<close>

definition get_core_registers :: "cops \<Rightarrow> bfd \<Rightarrow> ptid_t \<Rightarrow> message list \<times> reg_effect list" where
  "get_core_registers cops cbfd inferior_ptid =
     (if \<not> (case core_gdbarch cops of None \<Rightarrow> False | Some g \<Rightarrow> iterate_over_regset_sections_p g)
         \<and> (case core_vec cops of None \<Rightarrow> True | Some cv \<Rightarrow> \<not> core_read_registers cv)
      then ([CantFetchRegisters], [])
      else
        let calls =
              (case (case core_gdbarch cops of
                       None \<Rightarrow> None
                     | Some g \<Rightarrow> iterate_over_regset_sections g) of
                Some sections \<Rightarrow> map (get_core_registers_cb cops cbfd inferior_ptid) sections
              | None \<Rightarrow>
                  [get_core_register_section cops cbfd inferior_ptid None ''.reg'' 0 0
                     ''general-purpose'' True,
                   get_core_register_section cops cbfd inferior_ptid None ''.reg2'' 0 2
                     ''floating-point'' False]);
            results = until_abnormal calls
        in (concat (map rs_warnings results), map rs_effect results))"

text \<open>The list \<^verbatim>\<open>core_xfer_partial\<close> starts the walk with.\<close>

definition spuid_list_init :: "byte list \<Rightarrow> nat \<Rightarrow> nat \<Rightarrow> spuid_list" where
  "spuid_list_init rb offset len =
     \<lparr>sl_buf = rb, sl_offset = offset, sl_len = len, sl_pos = 0, sl_written = 0\<rparr>"

text \<open>Byte \<open>k mod 4\<close> of the encoding of identifier number \<open>k div 4\<close>.\<close>

definition id_byte :: "bool \<Rightarrow> int list \<Rightarrow> nat \<Rightarrow> byte" where
  "id_byte big ids k = store_unsigned_integer 4 big (ULONGEST_of (ids ! (k div 4))) ! (k mod 4)"

subsection \<open>The debugger state that corelow.c reads and writes\<close>

record inferior =
  inf_pid :: int
  inf_fake_pid_p :: bool

text \<open>
  A target on the target stack: an instance of the core target (the
  \<^verbatim>\<open>core_target_ops_with_data\<close> whose base is pushed) or a target of another file.
\<close>

datatype target = Core_target cops | Other_target string

text \<open>
  The globals: the target stack, \<^verbatim>\<open>core_bfd\<close>, the reference counts of the open
  containers (by handle), the addresses of the blocks allocated and not yet freed,
  \<^verbatim>\<open>inferior_ptid\<close>, the inferior registry (the current inferior and the others),
  the thread registry in order of creation, the list of loaded shared objects,
  whether \<^verbatim>\<open>exec_bfd\<close> is set, the current architecture, the handler registry, the
  messages printed and the convenience variable \<^verbatim>\<open>$_exitsignal\<close>.
\<close>

record gdb_state =
  target_stack :: "target list"
  core_bfd :: "bfd option"
  bfd_refcount :: "nat \<Rightarrow> int"
  live_blocks :: "nat list"
  inferior_ptid :: ptid_t
  current_inferior :: inferior
  other_inferiors :: "inferior list"
  thread_list :: "ptid_t list"
  solib_list :: "string list"
  exec_bfd_loaded :: bool
  target_gdbarch :: "gdbarch option"
  core_file_fns :: "core_fns list"
  messages :: "message list"
  exitsignal :: "int option"

text \<open>
  Modelled from the spec: the reference counting of containers, the allocator, the
  inferior and thread registries, the shared-object resolver and the target stack
  are collaborators of the core target whose code is in other files.  The
  definitions up to \<open>unpush_target_core_ops\<close> give them the contracts the
  specification names: a container is ``reference-counted with the parser'';
  \<open>close\<close> ``silently exits the inferior'' and ``clears shared-object state'';
  a thread record has the id \<open>(pid, lwp, 0)\<close>; step 14 picks ``the first thread of
  the inferior''; step 3 pops ``any previously attached instance of this backend''
  and step 10 pushes the backend onto the target stack.
\<close>

definition gdb_bfd_ref :: "bfd \<Rightarrow> gdb_state \<Rightarrow> gdb_state" where
  "gdb_bfd_ref abfd s =
     s\<lparr>bfd_refcount := (bfd_refcount s)(bfd_handle abfd := bfd_refcount s (bfd_handle abfd) + 1)\<rparr>"

definition gdb_bfd_unref :: "bfd \<Rightarrow> gdb_state \<Rightarrow> gdb_state" where
  "gdb_bfd_unref abfd s =
     s\<lparr>bfd_refcount := (bfd_refcount s)(bfd_handle abfd := bfd_refcount s (bfd_handle abfd) - 1)\<rparr>"

text \<open>An address that no live block has, and the two sides of the allocator.\<close>

definition fresh_block :: "nat list \<Rightarrow> nat" where
  "fresh_block blocks = Suc (fold max blocks 0)"

definition xmalloc :: "gdb_state \<Rightarrow> nat \<times> gdb_state" where
  "xmalloc s =
     (fresh_block (live_blocks s), s\<lparr>live_blocks := fresh_block (live_blocks s) # live_blocks s\<rparr>)"

definition xfree :: "nat option \<Rightarrow> gdb_state \<Rightarrow> gdb_state" where
  "xfree p s =
     (case p of None \<Rightarrow> s | Some a \<Rightarrow> s\<lparr>live_blocks := removeAll a (live_blocks s)\<rparr>)"

definition inferior_appeared :: "inferior \<Rightarrow> int \<Rightarrow> inferior" where
  "inferior_appeared inferior pid = inferior\<lparr>inf_pid := pid\<rparr>"

fun exit_first :: "int \<Rightarrow> inferior list \<Rightarrow> inferior list" where
  "exit_first pid [] = []"
| "exit_first pid (i # rest) =
     (if inf_pid i = pid then \<lparr>inf_pid = 0, inf_fake_pid_p = False\<rparr> # rest
      else i # exit_first pid rest)"

text \<open>
  \<^verbatim>\<open>exit_inferior_silent\<close>: the inferior with that process id, if there is one,
  loses its threads, its process id and its fake-pid flag.
\<close>

definition exit_inferior_silent :: "int \<Rightarrow> gdb_state \<Rightarrow> gdb_state" where
  "exit_inferior_silent pid s =
     (if inf_pid (current_inferior s) = pid
      then s\<lparr>current_inferior := \<lparr>inf_pid = 0, inf_fake_pid_p = False\<rparr>,
             thread_list := filter (\<lambda>t. ptid_pid t \<noteq> pid) (thread_list s)\<rparr>
      else if list_ex (\<lambda>i. inf_pid i = pid) (other_inferiors s)
      then s\<lparr>other_inferiors := exit_first pid (other_inferiors s),
             thread_list := filter (\<lambda>t. ptid_pid t \<noteq> pid) (thread_list s)\<rparr>
      else s)"

text \<open>
  \<^verbatim>\<open>add_thread\<close> and \<^verbatim>\<open>add_thread_silent\<close>: a new record at the end of the registry;
  a record that has the same id is deleted first.
\<close>

definition add_thread :: "ptid_t \<Rightarrow> gdb_state \<Rightarrow> gdb_state" where
  "add_thread ptid s = s\<lparr>thread_list := filter (\<lambda>t. t \<noteq> ptid) (thread_list s) @ [ptid]\<rparr>"

definition add_thread_silent :: "ptid_t \<Rightarrow> gdb_state \<Rightarrow> gdb_state" where
  "add_thread_silent ptid s = add_thread ptid s"

definition init_thread_list :: "gdb_state \<Rightarrow> gdb_state" where
  "init_thread_list s = s\<lparr>thread_list := []\<rparr>"

definition first_thread_of_process :: "gdb_state \<Rightarrow> ptid_t option" where
  "first_thread_of_process s = (case thread_list s of [] \<Rightarrow> None | t # _ \<Rightarrow> Some t)"

definition switch_to_thread :: "ptid_t \<Rightarrow> gdb_state \<Rightarrow> gdb_state" where
  "switch_to_thread ptid s = s\<lparr>inferior_ptid := ptid\<rparr>"

definition clear_solib :: "gdb_state \<Rightarrow> gdb_state" where
  "clear_solib s = s\<lparr>solib_list := []\<rparr>"

definition set_gdbarch_from_file :: "bfd \<Rightarrow> gdb_state \<Rightarrow> gdb_state" where
  "set_gdbarch_from_file abfd s = s\<lparr>target_gdbarch := bfd_gdbarch abfd\<rparr>"

definition push_target :: "target \<Rightarrow> gdb_state \<Rightarrow> gdb_state" where
  "push_target t s = s\<lparr>target_stack := t # target_stack s\<rparr>"

text \<open>
  \<^verbatim>\<open>core_xclose\<close>, the \<^verbatim>\<open>to_xclose\<close> method of the core target, and
  \<^verbatim>\<open>core_close_cleanup\<close>, which calls it.  The assertion on \<^verbatim>\<open>to_identity\<close> holds
  by the type of the argument.
\<close>

definition core_xclose :: "cops \<Rightarrow> gdb_state \<Rightarrow> gdb_state" where
  "core_xclose self s =
     (let s1 =
        (case core_bfd s of
          None \<Rightarrow> s
        | Some cb \<Rightarrow>
            let pid = ptid_pid (inferior_ptid s);
                s2 = s\<lparr>inferior_ptid := null_ptid\<rparr>;
                s3 = (if pid \<noteq> 0 then exit_inferior_silent pid s2 else s2);
                s4 = clear_solib s3;
                s5 = gdb_bfd_unref cb s4
            in s5\<lparr>core_bfd := None\<rparr>)
      in xfree (Some (cops_addr self)) (xfree (core_data_addr self) s1))"

definition core_close_cleanup :: "cops \<Rightarrow> gdb_state \<Rightarrow> gdb_state" where
  "core_close_cleanup arg s = core_xclose arg s"

text \<open>
  \<^verbatim>\<open>unpush_target (&core_ops)\<close>: the instance of the core target on the stack, if
  there is one, is taken off and closed.
\<close>

fun find_core_target :: "target list \<Rightarrow> cops option" where
  "find_core_target [] = None"
| "find_core_target (Core_target c # rest) = Some c"
| "find_core_target (Other_target n # rest) = find_core_target rest"

definition unpush_target_core_ops :: "gdb_state \<Rightarrow> gdb_state" where
  "unpush_target_core_ops s =
     (case find_core_target (target_stack s) of
       None \<Rightarrow> s
     | Some c \<Rightarrow> core_xclose c (s\<lparr>target_stack := remove1 (Core_target c) (target_stack s)\<rparr>))"

text \<open>\<^verbatim>\<open>get_core_target_ops\<close>: the core target at the process stratum, if any.\<close>

definition get_core_target_ops :: "gdb_state \<Rightarrow> cops option" where
  "get_core_target_ops s = find_core_target (target_stack s)"

subsection \<open>Building the thread list\<close>

text \<open>
  \<^verbatim>\<open>add_to_thread_list\<close>, the callback of the walk over the sections.  The process
  id is read from the global \<^verbatim>\<open>core_bfd\<close>, which \<^verbatim>\<open>core_open\<close> has set before the
  walk (with a null \<^verbatim>\<open>core_bfd\<close> the C code would not get past the macro).
\<close>

definition add_to_thread_list :: "bfd \<Rightarrow> asection \<Rightarrow> asection option \<Rightarrow> gdb_state \<Rightarrow> gdb_state" where
  "add_to_thread_list abfd asect reg_sect s =
     (if \<not> startswith (sec_name asect) ''.reg/'' then s
      else
        (case core_bfd s of
          None \<Rightarrow> s
        | Some cb \<Rightarrow>
            let core_tid = atoi (drop 5 (sec_name asect));
                pid0 = bfd_core_file_pid cb;
                fake_pid_p = (pid0 = 0);
                pid = (if pid0 = 0 then CORELOW_PID else pid0);
                lwpid = core_tid;
                inferior = current_inferior s;
                s1 = (if inf_pid inferior = 0
                      then s\<lparr>current_inferior :=
                               (inferior_appeared inferior pid)\<lparr>inf_fake_pid_p := fake_pid_p\<rparr>\<rparr>
                      else s);
                ptid = ptid_build pid lwpid 0;
                s2 = add_thread ptid s1
            in (case reg_sect of
                  None \<Rightarrow> s2
                | Some r \<Rightarrow>
                    if sec_filepos asect = sec_filepos r then s2\<lparr>inferior_ptid := ptid\<rparr>
                    else s2)))"

subsection \<open>Opening a core file\<close>

text \<open>
  What \<^verbatim>\<open>core_open\<close> gets from outside: \<^verbatim>\<open>target_preopen\<close> (\<open>None\<close> when it throws
  because the user keeps the running program), \<^verbatim>\<open>tilde_expand\<close>, the current
  directory, the \<^verbatim>\<open>write_files\<close> flag, the file system seen through
  \<^verbatim>\<open>gdb_open_cloexec\<close> and \<^verbatim>\<open>gdb_bfd_fopen\<close> (the container for a file name and a
  write flag, \<open>None\<close> when either call fails), \<^verbatim>\<open>build_section_table\<close> (whether it
  reports a failure, and the table it allocated, if any), whether
  \<^verbatim>\<open>post_create_inferior\<close> throws, and the host's signal numbering.
\<close>

record open_env =
  env_target_preopen :: "gdb_state \<Rightarrow> gdb_state option"
  env_tilde_expand :: "string \<Rightarrow> string"
  env_current_directory :: string
  env_write_files :: bool
  env_fopen :: "string \<Rightarrow> bool \<Rightarrow> bfd option"
  env_build_section_table :: "bfd \<Rightarrow> bool \<times> asection list option"
  env_post_create_inferior_throws :: bool
  env_gdb_signal_from_host :: "int \<Rightarrow> int"

definition IS_ABSOLUTE_PATH :: "string \<Rightarrow> bool" where
  "IS_ABSOLUTE_PATH f = (case f of [] \<Rightarrow> False | c # _ \<Rightarrow> c = CHR ''/'')"

definition warn :: "message list \<Rightarrow> gdb_state \<Rightarrow> gdb_state" where
  "warn ms s = s\<lparr>messages := messages s @ ms\<rparr>"

text \<open>
  Lines 431 to 500, after the thread list is built.  \<^verbatim>\<open>post_create_inferior\<close> is
  not guarded: when it throws, \<^verbatim>\<open>core_open\<close> ends there with the session pushed.
  \<^verbatim>\<open>target_fetch_registers\<close> of line 480 reaches \<^verbatim>\<open>get_core_registers\<close> of the
  session just pushed, with the new container as \<^verbatim>\<open>core_bfd\<close> and the current
  thread in \<^verbatim>\<open>inferior_ptid\<close>; what it prints is added to the messages, and a call
  that ends abnormally ends \<^verbatim>\<open>core_open\<close> with it: \<open>NullPointerUsed\<close> for the use of
  a null pointer, \<open>InternalError\<close> for a failed assertion.
  \<^verbatim>\<open>target_update_thread_list\<close>, the frame cache and the printing of the frame and
  of the thread act on the frame cache and the terminal, which this state does not
  hold.
\<close>

definition abnormal_end :: "reg_effect \<Rightarrow> error" where
  "abnormal_end e = (if e = AssertionFailed then InternalError else NullPointerUsed)"

text \<open>Lines 448 to 477: the failing command and the failing signal are reported.\<close>

definition core_open_report :: "open_env \<Rightarrow> cops \<Rightarrow> bfd \<Rightarrow> gdb_state \<Rightarrow> gdb_state" where
  "core_open_report env cops cb s =
     (let s1 = (case bfd_core_file_failing_command cb of
                  None \<Rightarrow> s
                | Some p \<Rightarrow> warn [CoreWasGeneratedBy p] s);
          s2 = s1\<lparr>exitsignal := None\<rparr>;
          siggy = bfd_core_file_failing_signal cb
      in if siggy > 0
         then
           let sig =
             (case core_gdbarch cops of
               None \<Rightarrow> env_gdb_signal_from_host env siggy
             | Some g \<Rightarrow>
                 (case gdb_signal_from_target g of
                   None \<Rightarrow> env_gdb_signal_from_host env siggy
                 | Some f \<Rightarrow> f siggy))
           in (warn [ProgramTerminatedWithSignal sig] s2)\<lparr>exitsignal := Some siggy\<rparr>
         else s2)"

definition core_open_finish :: "open_env \<Rightarrow> cops \<Rightarrow> bfd \<Rightarrow> gdb_state \<Rightarrow> error option \<times> gdb_state" where
  "core_open_finish env cops cb s =
     (if env_post_create_inferior_throws env then (Some PostCreateFailed, s)
      else
        let s3 = core_open_report env cops cb s
        in (case get_core_registers cops cb (inferior_ptid s3) of
              (ms, effects) \<Rightarrow>
                (case find abnormal effects of
                  Some e \<Rightarrow> (Some (abnormal_end e), warn ms s3)
                | None \<Rightarrow> (None, warn ms s3))))"

text \<open>
  Lines 393 to 429: the thread list is reset, the sections are walked, and when no
  thread became current either the first thread is chosen or, with no thread at
  all, the inferior and its single thread are made up.
\<close>

definition core_open_threads :: "bfd \<Rightarrow> gdb_state \<Rightarrow> gdb_state" where
  "core_open_threads cb s =
     (let s1 = init_thread_list s;
          s2 = s1\<lparr>inferior_ptid := null_ptid\<rparr>;
          s3 = bfd_map_over_sections cb
                 (\<lambda>abfd asect. add_to_thread_list abfd asect (bfd_get_section_by_name cb ''.reg''))
                 s2
      in if inferior_ptid s3 = null_ptid
         then
           (case first_thread_of_process s3 of
             None \<Rightarrow>
               let s4 = s3\<lparr>current_inferior := inferior_appeared (current_inferior s3) CORELOW_PID\<rparr>;
                   s5 = s4\<lparr>inferior_ptid := pid_to_ptid CORELOW_PID\<rparr>
               in add_thread_silent (inferior_ptid s5) s5
           | Some thread \<Rightarrow> switch_to_thread thread s3)
         else s3)"

text \<open>
  Lines 358 to 387: the old core file is tossed, the new container installed, the
  session data allocated under the cleanup \<^verbatim>\<open>core_close_cleanup\<close>, the handler
  sniffed and the section table built; an error runs the cleanup.  \<^verbatim>\<open>validate_files\<close>
  only warns about the executable.
\<close>

definition core_open_install :: "open_env \<Rightarrow> bfd \<Rightarrow> gdb_state \<Rightarrow> error option \<times> gdb_state" where
  "core_open_install env temp_bfd s =
     (let s1 = unpush_target_core_ops s;
          s2 = s1\<lparr>core_bfd := Some temp_bfd\<rparr>;
          (a, s3) = xmalloc s2;
          cops = \<lparr>cops_addr = a, core_vec = None, core_gdbarch = bfd_gdbarch temp_bfd,
                  core_data_addr = None, core_data = []\<rparr>
      in case sniff_core_bfd (core_file_fns s3) temp_bfd (core_gdbarch cops) of
           (Inl e, ms) \<Rightarrow> (Some e, core_close_cleanup cops (warn ms s3))
         | (Inr vec, ms) \<Rightarrow>
             let cops1 = cops\<lparr>core_vec := vec\<rparr>;
                 s4 = warn ms s3
             in (case env_build_section_table env temp_bfd of
                   (failed, table) \<Rightarrow>
                     let (cops2, s5) =
                           (case table of
                             None \<Rightarrow> (cops1, s4)
                           | Some entries \<Rightarrow>
                               (case xmalloc s4 of
                                 (t, s') \<Rightarrow>
                                   (cops1\<lparr>core_data_addr := Some t, core_data := entries\<rparr>, s')))
                     in if failed
                        then (Some (SectionTableError (bfd_filename temp_bfd)),
                              core_close_cleanup cops2 s5)
                        else
                          let s6 = (if \<not> exec_bfd_loaded s5
                                    then set_gdbarch_from_file temp_bfd s5 else s5);
                              s7 = push_target (Core_target cops2) s6
                          in core_open_finish env cops2 temp_bfd (core_open_threads temp_bfd s7)))"

text \<open>
  \<^verbatim>\<open>core_open\<close>: the error thrown or the abnormal end of the register fetch, if
  any, and the state it leaves.  The cleanup of the file name has no effect on this
  state; a container that is not a core is released by the cleanup
  \<^verbatim>\<open>make_cleanup_bfd_unref\<close> when the error is thrown.
\<close>

definition core_open :: "open_env \<Rightarrow> string option \<Rightarrow> gdb_state \<Rightarrow> error option \<times> gdb_state" where
  "core_open env arg s0 =
     (case env_target_preopen env s0 of
       None \<Rightarrow> (Some ProgramNotKilled, s0)
     | Some s \<Rightarrow>
         (case arg of
           None \<Rightarrow> (Some NoCoreFileSpecified, s)
         | Some a \<Rightarrow>
             let expanded = env_tilde_expand env a;
                 filename = (if \<not> IS_ABSOLUTE_PATH expanded
                             then env_current_directory env @ ''/'' @ expanded else expanded)
             in (case env_fopen env filename (env_write_files env) of
                   None \<Rightarrow> (Some (OpenFailed filename), s)
                 | Some temp_bfd \<Rightarrow>
                     let s1 = gdb_bfd_ref temp_bfd s in
                     if \<not> bfd_is_core temp_bfd \<and> \<not> gdb_check_format (core_file_fns s1) temp_bfd
                     then (Some (NotACore filename), gdb_bfd_unref temp_bfd s1)
                     else core_open_install env temp_bfd s1)))"

text \<open>
  The process id and the thread that \<^verbatim>\<open>add_to_thread_list\<close> makes of a section of
  a container, and the process ids of the inferiors that exist.
\<close>

definition core_pid :: "bfd \<Rightarrow> int" where
  "core_pid cb = (if bfd_core_file_pid cb = 0 then CORELOW_PID else bfd_core_file_pid cb)"

definition thread_of_section :: "bfd \<Rightarrow> asection \<Rightarrow> ptid_t" where
  "thread_of_section cb a = ptid_build (core_pid cb) (atoi (drop 5 (sec_name a))) 0"

definition live_pids :: "gdb_state \<Rightarrow> int set" where
  "live_pids s = {p. p \<noteq> 0 \<and> (p = inf_pid (current_inferior s) \<or> p \<in> inf_pid ` set (other_inferiors s))}"

text \<open>
  A section that starts with \<^verbatim>\<open>.reg/\<close> and has the file offset of the section
  \<^verbatim>\<open>add_to_thread_list\<close> is given as \<^verbatim>\<open>.reg\<close>: the test of its last statement.
\<close>

definition reg_alias :: "asection option \<Rightarrow> asection \<Rightarrow> bool" where
  "reg_alias reg_sect a =
     (startswith (sec_name a) ''.reg/''
      \<and> (case reg_sect of None \<Rightarrow> False | Some r \<Rightarrow> sec_filepos a = sec_filepos r))"

subsection \<open>Example containers\<close>

text \<open>
  Concrete containers, sessions and collaborators on which the theorems below are
  instantiated: a big-endian container whose sections read as zero bytes.
\<close>

definition zero_contents :: "asection \<Rightarrow> nat \<Rightarrow> nat \<Rightarrow> byte list option" where
  "zero_contents a off n = (if off + n \<le> sec_size a then Some (replicate n 0) else None)"

definition example_bfd :: "asection list \<Rightarrow> int \<Rightarrow> gdbarch option \<Rightarrow> bfd" where
  "example_bfd secs pid arch =
     \<lparr>bfd_handle = 7, bfd_filename = ''/tmp/core'', bfd_sections = secs, bfd_is_core = True,
      bfd_flavour = 0, bfd_big_endian = True, bfd_core_file_pid = pid, bfd_gdbarch = arch,
      bfd_contents = zero_contents, bfd_core_file_failing_command = None,
      bfd_core_file_failing_signal = 0\<rparr>"

definition example_section :: "string \<Rightarrow> int \<Rightarrow> nat \<Rightarrow> asection" where
  "example_section name filepos sz =
     \<lparr>sec_name = name, sec_filepos = filepos, sec_size = sz, sec_vma = 0\<rparr>"

definition example_cops :: cops where
  "example_cops = \<lparr>cops_addr = 1, core_vec = None, core_gdbarch = None, core_data_addr = None,
                    core_data = []\<rparr>"

definition example_externals :: xfer_externals where
  "example_externals =
     \<lparr>memory_read = (\<lambda>secs rb off n. xfer_return TARGET_XFER_E_IO rb),
      beneath_xfer_partial = (\<lambda>obj annex rb wb off n. xfer_return TARGET_XFER_E_IO rb)\<rparr>"

definition example_handler :: core_fns where
  "example_handler =
     \<lparr>core_flavour = 0, check_format = default_check_format,
      core_sniffer = (\<lambda>abfd. bfd_flavour abfd = 0), core_read_registers = True\<rparr>"

text \<open>
  Two architectures: one whose iterator reports the sections \<^verbatim>\<open>.reg\<close> of 16 bytes
  and \<^verbatim>\<open>.reg2\<close> of 4 bytes, each with a register set of fixed size, and one
  without iterator.
\<close>

definition example_gdbarch :: gdbarch where
  "example_gdbarch =
     \<lparr>iterate_over_regset_sections =
        Some [(''.reg'', 16, Some \<lparr>regset_variable_size = False\<rparr>, None),
              (''.reg2'', 4, Some \<lparr>regset_variable_size = False\<rparr>, None)],
      core_xfer_shared_libraries = None, core_xfer_shared_libraries_aix = None,
      gdb_signal_from_target = None\<rparr>"

definition example_legacy_gdbarch :: gdbarch where
  "example_legacy_gdbarch = example_gdbarch\<lparr>iterate_over_regset_sections := None\<rparr>"

definition example_state :: gdb_state where
  "example_state =
     \<lparr>target_stack = [Other_target ''exec''], core_bfd = None, bfd_refcount = (\<lambda>h. 0),
      live_blocks = [], inferior_ptid = null_ptid,
      current_inferior = \<lparr>inf_pid = 0, inf_fake_pid_p = False\<rparr>, other_inferiors = [],
      thread_list = [], solib_list = [], exec_bfd_loaded = True, target_gdbarch = None,
      core_file_fns = [example_handler], messages = [], exitsignal = None\<rparr>"

definition example_env :: "bfd option \<Rightarrow> open_env" where
  "example_env file =
     \<lparr>env_target_preopen = Some, env_tilde_expand = (\<lambda>f. f), env_current_directory = ''/tmp'',
      env_write_files = False,
      env_fopen = (\<lambda>name w. if name = ''/tmp/core'' then file else None),
      env_build_section_table = (\<lambda>abfd. (False, Some (bfd_sections abfd))),
      env_post_create_inferior_throws = False, env_gdb_signal_from_host = (\<lambda>n. n)\<rparr>"

lemmas example_defs = example_bfd_def example_section_def example_cops_def example_externals_def
  zero_contents_def

section \<open>Theorems\<close>

lemmas open_defs = core_open_def core_open_install_def core_open_threads_def core_open_finish_def
  core_open_report_def
  add_to_thread_list_def unpush_target_core_ops_def core_close_cleanup_def core_xclose_def
  xmalloc_def xfree_def fresh_block_def gdb_bfd_ref_def gdb_bfd_unref_def push_target_def
  set_gdbarch_from_file_def clear_solib_def switch_to_thread_def first_thread_of_process_def
  init_thread_list_def add_thread_def add_thread_silent_def exit_inferior_silent_def
  inferior_appeared_def warn_def IS_ABSOLUTE_PATH_def sniff_core_bfd_def
  bfd_map_over_sections_def bfd_get_section_by_name_def startswith_def
  null_ptid_def ptid_build_def pid_to_ptid_def CORELOW_PID_def



subsection \<open>The sniffer\<close>

lemma sniff_loop_filter:
  "sniff_loop fns abfd yummy matches =
     (if accepting fns abfd = [] then yummy else Some (last (accepting fns abfd)),
      matches + length (accepting fns abfd))"
  by (induction fns arbitrary: yummy matches) (simp_all add: accepting_def)

text \<open>
  Claim C2.  When the architecture is present and provides a register-set iterator,
  \<^verbatim>\<open>sniff_core_bfd\<close> returns no handler and says nothing.  Otherwise it walks the
  registry: with no accepting handler it fails with the error that names the
  container; with one it returns that handler silently; with more than one it
  returns the last accepting handler in traversal order and emits exactly one
  warning, which carries the container's file name and the number of matches.
\<close>

theorem sniff_core_bfd_result:
  "sniff_core_bfd fns abfd arch =
     (if (case arch of None \<Rightarrow> False | Some g \<Rightarrow> iterate_over_regset_sections_p g)
      then (Inr None, [])
      else if accepting fns abfd = []
      then (Inl (UnrecognizedFormat (bfd_filename abfd)), [])
      else (Inr (Some (last (accepting fns abfd))),
            if length (accepting fns abfd) > 1
            then [AmbiguousCoreFormat (bfd_filename abfd) (length (accepting fns abfd))]
            else []))"
  by (simp add: sniff_core_bfd_def sniff_loop_filter)


subsection \<open>Reading a register section\<close>

text \<open>
  The two size checks when a register set is supplied.  Let the section that
  \<^verbatim>\<open>get_core_register_section\<close> looks up exist and the declared minimum size be a
  non-negative \<^verbatim>\<open>int\<close>.  If the section is smaller than the minimum, the call warns
  that the section is too small and supplies nothing.  If the section is larger than
  the minimum and the register set is not flagged variable-size, the call warns
  about the unexpected size and goes on: it reads the whole section and hands the
  contents and the size to the register set (or, when that read fails, warns once
  more and supplies nothing).
\<close>

theorem get_core_register_section_size_checks:
  assumes "bfd_get_section_by_name cbfd (register_section_name ptid name) = Some section"
    and "0 \<le> min_size" and "min_size < 2 ^ 31"
  shows "(int (sec_size section) < min_size \<longrightarrow>
            get_core_register_section cops cbfd ptid regset name min_size which human_name
                required =
              \<lparr>rs_warnings = [SectionTooSmall (register_section_name ptid name)],
               rs_effect = NothingSupplied\<rparr>)
       \<and> (min_size < int (sec_size section) \<and> regset = Some rs \<and> \<not> regset_variable_size rs \<longrightarrow>
            get_core_register_section cops cbfd ptid regset name min_size which human_name
                required =
              (case bfd_contents cbfd section 0 (sec_size section) of
                 None \<Rightarrow>
                   \<lparr>rs_warnings = [UnexpectedSectionSize (register_section_name ptid name),
                                   CouldntReadRegisters human_name name],
                    rs_effect = NothingSupplied\<rparr>
               | Some contents \<Rightarrow>
                   \<lparr>rs_warnings = [UnexpectedSectionSize (register_section_name ptid name)],
                    rs_effect = SuppliedByRegset rs contents (sec_size section)\<rparr>))"
proof -
  have u: "ULONGEST_of min_size = nat min_size"
    using assms(2,3) by (simp add: ULONGEST_of_def)
  show ?thesis
    using assms(1,2) by (auto simp: get_core_register_section_def u Let_def split: option.splits)
qed

theorem get_core_register_section_size_checks_witness:
  "get_core_register_section example_cops
     (example_bfd [example_section ''.reg'' 100 16, example_section ''.reg2'' 200 4] 4321 None)
     null_ptid (Some \<lparr>regset_variable_size = False\<rparr>) ''.reg2'' 8 (- 1) ''floating-point'' False =
     \<lparr>rs_warnings = [SectionTooSmall ''.reg2''], rs_effect = NothingSupplied\<rparr>
   \<and> get_core_register_section example_cops
     (example_bfd [example_section ''.reg'' 100 16, example_section ''.reg2'' 200 4] 4321 None)
     null_ptid (Some \<lparr>regset_variable_size = False\<rparr>) ''.reg'' 8 (- 1) ''general-purpose'' True =
     \<lparr>rs_warnings = [UnexpectedSectionSize ''.reg''],
      rs_effect = SuppliedByRegset \<lparr>regset_variable_size = False\<rparr> (replicate 16 0) 16\<rparr>"
  using get_core_register_section_size_checks
    [of "example_bfd [example_section ''.reg'' 100 16, example_section ''.reg2'' 200 4] 4321 None"
        null_ptid "''.reg2''" "example_section ''.reg2'' 200 4" 8 example_cops
        "Some \<lparr>regset_variable_size = False\<rparr>" "- 1" "''floating-point''" False
        "\<lparr>regset_variable_size = False\<rparr>"]
    get_core_register_section_size_checks
    [of "example_bfd [example_section ''.reg'' 100 16, example_section ''.reg2'' 200 4] 4321 None"
        null_ptid "''.reg''" "example_section ''.reg'' 100 16" 8 example_cops
        "Some \<lparr>regset_variable_size = False\<rparr>" "- 1" "''general-purpose''" True
        "\<lparr>regset_variable_size = False\<rparr>"]
  by (simp add: bfd_get_section_by_name_def register_section_name_def null_ptid_def
      ptid_build_def example_bfd_def example_section_def zero_contents_def)


text \<open>
  Claim C6 at the call \<^verbatim>\<open>get_core_registers\<close> makes for a legacy handler (lines 658
  and 659): no register set, minimum size 0, and a \<^verbatim>\<open>.reg\<close> section of 16 bytes.  The
  size differs from the minimum and nothing is flagged variable-size, so the claim
  asks for a warning and for the supply through the handler; the code reads
  \<^verbatim>\<open>regset->flags\<close> through the null pointer before it warns or supplies anything.
\<close>

theorem get_core_register_section_null_regset:
  "get_core_register_section (example_cops\<lparr>core_vec := Some example_handler\<rparr>)
     (example_bfd [example_section ''.reg'' 100 16] 4321 None)
     null_ptid None ''.reg'' 0 0 ''general-purpose'' True =
     \<lparr>rs_warnings = [], rs_effect = NullRegsetDereferenced\<rparr>"
  by (simp add: get_core_register_section_def register_section_name_def null_ptid_def
      ptid_build_def bfd_get_section_by_name_def example_bfd_def example_section_def
      ULONGEST_of_def)


subsection \<open>Partial transfers\<close>

lemma LONGEST_of_pos: "0 < LONGEST_of n \<longleftrightarrow> 0 < n mod 2 ^ 64 \<and> n mod 2 ^ 64 < 2 ^ 63"
proof -
  have m: "(int n + 2 ^ 63) mod 2 ^ 64 = (if int n mod 2 ^ 64 < 2 ^ 63 then int n mod 2 ^ 64 + 2 ^ 63 else int n mod 2 ^ 64 - 2 ^ 63)"
  proof -
    define r where "r = int n mod 2 ^ 64"
    have r: "0 \<le> r" "r < 2 ^ 64" by (simp_all add: r_def)
    have "(int n + 2 ^ 63) mod 2 ^ 64 = (r + 2 ^ 63) mod 2 ^ 64"
      unfolding r_def by (simp add: mod_add_left_eq)
    also have "\<dots> = (if r < 2 ^ 63 then r + 2 ^ 63 else r - 2 ^ 63)"
    proof (cases "r < 2 ^ 63")
      case True then show ?thesis using r by simp
    next
      case False
      have "r + 2 ^ 63 = (r - 2 ^ 63) + 2 ^ 64" by simp
      then have "(r + 2 ^ 63) mod 2 ^ 64 = ((r - 2 ^ 63) + 2 ^ 64) mod 2 ^ 64" by presburger
      also have "\<dots> = (r - 2 ^ 63) mod 2 ^ 64" by (rule mod_add_self2)
      also have "\<dots> = r - 2 ^ 63" using False r by simp
      finally show ?thesis using False by simp
    qed
    finally show ?thesis by (simp add: r_def)
  qed
  have e: "int (n mod 2 ^ 64) = int n mod 2 ^ 64" by (simp add: zmod_int)
  have "0 < LONGEST_of n \<longleftrightarrow> 0 < int n mod 2 ^ 64 \<and> int n mod 2 ^ 64 < 2 ^ 63"
    unfolding LONGEST_of_def m by auto
  then show ?thesis using e by (metis of_nat_0_less_iff of_nat_less_iff of_nat_numeral of_nat_power)
qed


text \<open>
  Claim C7.  A request that carries a write buffer and no read buffer is answered
  with \<^verbatim>\<open>TARGET_XFER_E_IO\<close>, stores no length and prints nothing, for every object
  kind the core target handles itself (memory, auxiliary vector, stack cookie, both
  library lists, SPU, signal information); every other kind is handed unchanged to
  the target beneath.  For memory the answer is that of the memory service, whose
  rejection of writes is taken from the specification.
\<close>

theorem core_xfer_partial_write_rejected:
  assumes "writebuf = Some w" and "readbuf = None"
  shows "core_xfer_partial ext cops cbfd ptid object annex readbuf writebuf offset len =
           (case object of
              TARGET_OBJECT_OTHER k \<Rightarrow>
                beneath_xfer_partial ext object annex readbuf writebuf offset len
            | _ \<Rightarrow> xfer_return TARGET_XFER_E_IO None)"
  using assms
  by (cases object)
     (simp_all add: section_table_xfer_memory_partial_def xfer_case_LIBRARIES_def
        xfer_case_LIBRARIES_AIX_def xfer_case_SPU_def xfer_by_gdbarch_def
        split: option.splits)


theorem core_xfer_partial_write_rejected_witness:
  "core_xfer_partial example_externals example_cops
     (example_bfd [example_section ''.auxv'' 0 16] 4321 None) null_ptid
     TARGET_OBJECT_AUXV None None (Some [1, 2, 3]) 0 3 = xfer_return TARGET_XFER_E_IO None
   \<and> core_xfer_partial example_externals example_cops
     (example_bfd [example_section ''.auxv'' 0 16] 4321 None) null_ptid
     TARGET_OBJECT_MEMORY None None (Some [1, 2, 3]) 0 3 = xfer_return TARGET_XFER_E_IO None"
  using core_xfer_partial_write_rejected
      [of "Some [1, 2, 3]" "[1, 2, 3]" None example_externals example_cops
          "example_bfd [example_section ''.auxv'' 0 16] 4321 None" null_ptid
          TARGET_OBJECT_AUXV None 0 3]
    core_xfer_partial_write_rejected
      [of "Some [1, 2, 3]" "[1, 2, 3]" None example_externals example_cops
          "example_bfd [example_section ''.auxv'' 0 16] 4321 None" null_ptid
          TARGET_OBJECT_MEMORY None 0 3]
  by simp

text \<open>
  Claim C9.  A read of the signal information looks up the section
  \<^verbatim>\<open>.note.linuxcore.siginfo\<close>, with \<^verbatim>\<open>/<lwp>\<close> appended when the current thread's
  LWP is not zero, and asks the container for exactly \<open>len\<close> bytes at \<open>offset\<close>.
  When the section is absent or that read fails the answer is \<^verbatim>\<open>TARGET_XFER_E_IO\<close>;
  when it succeeds the answer is \<^verbatim>\<open>TARGET_XFER_OK\<close> with the transferred length equal
  to \<open>len\<close> (a length that is zero, or not positive as a \<^verbatim>\<open>LONGEST\<close>, also gives
  \<^verbatim>\<open>TARGET_XFER_E_IO\<close>).
\<close>

theorem core_xfer_partial_signal_info:
  "core_xfer_partial ext cops cbfd ptid TARGET_OBJECT_SIGNAL_INFO annex (Some rb) writebuf
       offset len =
     (case bfd_get_section_by_name cbfd
             (if ptid_lwp ptid \<noteq> 0
              then ''.note.linuxcore.siginfo/'' @ printf_ld (ptid_lwp ptid)
              else ''.note.linuxcore.siginfo'') of
        None \<Rightarrow> xfer_return TARGET_XFER_E_IO (Some rb)
      | Some section \<Rightarrow>
          (case bfd_contents cbfd section offset len of
             None \<Rightarrow> xfer_return TARGET_XFER_E_IO (Some rb)
           | Some bytes \<Rightarrow>
               if 0 < len mod 2 ^ 64 \<and> len mod 2 ^ 64 < 2 ^ 63
               then \<lparr>xr_status = TARGET_XFER_OK, xr_xfered_len = Some len,
                     xr_readbuf = Some (store_bytes rb 0 bytes), xr_warnings = []\<rparr>
               else xfer_return TARGET_XFER_E_IO (Some (store_bytes rb 0 bytes))))"
  by (simp add: get_core_siginfo_def siginfo_section_name_def LONGEST_of_pos
        split: option.splits)


subsection \<open>The list of SPU identifiers\<close>

lemma length_store_bytes [simp]: "length (store_bytes buf i bs) = length buf"
  by (induction bs arbitrary: buf i) simp_all

lemma nth_store_bytes:
  "j < length buf \<Longrightarrow>
   store_bytes buf i bs ! j = (if i \<le> j \<and> j < i + length bs then bs ! (j - i) else buf ! j)"
proof (induction bs arbitrary: buf i)
  case Nil
  then show ?case by auto
next
  case (Cons b bs)
  then show ?case
    by (auto simp: nth_list_update nth_Cons' Suc_diff_le)
qed

lemma length_store_unsigned_integer [simp]: "length (store_unsigned_integer n big v) = n"
  by (simp add: store_unsigned_integer_def)

lemma add_to_spuid_list_skip:
  "\<not> is_spu_regs a \<Longrightarrow> add_to_spuid_list abfd a l = l"
  by (auto simp: add_to_spuid_list_def is_spu_regs_def split: prod.splits option.splits)

lemma add_to_spuid_list_match:
  "is_spu_regs a \<Longrightarrow>
   add_to_spuid_list abfd a l =
     (let fd = the (fst (sscanf_SPU_regs (sec_name a)));
          list1 =
            (if sl_pos l \<ge> sl_offset l
                \<and> (sl_pos l + 4) mod 2 ^ 64 \<le> (sl_offset l + sl_len l) mod 2 ^ 64
             then l\<lparr>sl_buf := store_bytes (sl_buf l) (sl_pos l - sl_offset l)
                                 (store_unsigned_integer 4 (bfd_big_endian abfd) (ULONGEST_of fd)),
                    sl_written := (sl_written l + 4) mod 2 ^ 64\<rparr>
             else l)
      in list1\<lparr>sl_pos := (sl_pos list1 + 4) mod 2 ^ 64\<rparr>)"
  by (auto simp: add_to_spuid_list_def is_spu_regs_def Let_def split: prod.splits option.splits)

lemma spu_ids_snoc:
  "spu_ids (secs @ [a]) =
     (if is_spu_regs a then spu_ids secs @ [the (fst (sscanf_SPU_regs (sec_name a)))]
      else spu_ids secs)"
  by (simp add: spu_ids_def)

lemma length_spu_ids_le: "length (spu_ids secs) \<le> length secs"
  by (simp add: spu_ids_def)

lemma add_to_spuid_list_pos:
  "is_spu_regs a \<Longrightarrow> sl_pos (add_to_spuid_list abfd a l) = (sl_pos l + 4) mod 2 ^ 64"
  by (simp add: add_to_spuid_list_match Let_def)

lemma add_to_spuid_list_written:
  "is_spu_regs a \<Longrightarrow>
   sl_written (add_to_spuid_list abfd a l) = sl_written l
   \<or> sl_written (add_to_spuid_list abfd a l) = (sl_written l + 4) mod 2 ^ 64"
  by (simp add: add_to_spuid_list_match Let_def)

lemma spu_walk_modular:
  "4 dvd sl_written (fold (add_to_spuid_list abfd) secs (spuid_list_init rb offset len))
   \<and> sl_pos (fold (add_to_spuid_list abfd) secs (spuid_list_init rb offset len)) =
       (4 * length (spu_ids secs)) mod 2 ^ 64"
proof (induction secs rule: rev_induct)
  case Nil
  show ?case by (simp add: spuid_list_init_def spu_ids_def)
next
  case (snoc a secs)
  let ?l = "fold (add_to_spuid_list abfd) secs (spuid_list_init rb offset len)"
  have d: "(4::nat) dvd 2 ^ 64" by simp
  have w: "\<And>x::nat. 4 dvd x \<Longrightarrow> 4 dvd (x + 4) mod 2 ^ 64"
    using d by (simp add: dvd_mod_iff)
  show ?case
  proof (cases "is_spu_regs a")
    case False
    with snoc show ?thesis by (simp add: add_to_spuid_list_skip spu_ids_snoc)
  next
    case True
    have p: "sl_pos (add_to_spuid_list abfd a ?l) = (4 * length (spu_ids secs) + 4) mod 2 ^ 64"
      using snoc True by (simp add: add_to_spuid_list_pos mod_add_left_eq)
    have o: "4 dvd sl_written ?l" using snoc by simp
    have "4 dvd sl_written (add_to_spuid_list abfd a ?l)"
    proof (rule disjE [OF add_to_spuid_list_written [OF True, of abfd ?l]])
      assume "sl_written (add_to_spuid_list abfd a ?l) = sl_written ?l"
      then show ?thesis using o by simp
    next
      assume "sl_written (add_to_spuid_list abfd a ?l) = (sl_written ?l + 4) mod 2 ^ 64"
      then show ?thesis using w [OF o] by simp
    qed
    with p True show ?thesis by (simp add: spu_ids_snoc add.commute)
  qed
qed

lemma add_to_spuid_list_nowrap:
  assumes "is_spu_regs a" and "sl_pos l = 4 * i" and "4 * i + 4 < 2 ^ 64"
    and "sl_offset l + sl_len l < 2 ^ 64" and "sl_written l + 4 < 2 ^ 64"
  shows "add_to_spuid_list abfd a l =
           (if slot_in_window (sl_offset l) (sl_len l) i
            then l\<lparr>sl_buf := store_bytes (sl_buf l) (4 * i - sl_offset l)
                      (store_unsigned_integer 4 (bfd_big_endian abfd)
                         (ULONGEST_of (the (fst (sscanf_SPU_regs (sec_name a)))))),
                   sl_written := sl_written l + 4,
                   sl_pos := 4 * i + 4\<rparr>
            else l\<lparr>sl_pos := 4 * i + 4\<rparr>)"
  using assms(2-) by (simp add: add_to_spuid_list_match [OF assms(1)] Let_def slot_in_window_def)

lemma spu_walk_invariant:
  assumes "offset + len < 2 ^ 64" and "4 * length secs < 2 ^ 64"
  shows "let l = fold (add_to_spuid_list abfd) secs (spuid_list_init rb offset len) in
         sl_pos l = 4 * length (spu_ids secs)
       \<and> sl_offset l = offset \<and> sl_len l = len
       \<and> sl_written l =
           4 * length (filter (slot_in_window offset len) [0..<length (spu_ids secs)])
       \<and> length (sl_buf l) = length rb
       \<and> (\<forall>j<length rb.
            sl_buf l ! j =
              (if (j + offset) div 4 < length (spu_ids secs)
                  \<and> slot_in_window offset len ((j + offset) div 4)
               then id_byte (bfd_big_endian abfd) (spu_ids secs) (j + offset)
               else rb ! j))"
  using assms(2) unfolding Let_def
proof (induction secs rule: rev_induct)
  case Nil
  show ?case by (simp add: spuid_list_init_def spu_ids_def)
next
  case (snoc a secs)
  let ?l = "fold (add_to_spuid_list abfd) secs (spuid_list_init rb offset len)"
  let ?n = "length (spu_ids secs)"
  from snoc.prems have b: "4 * length secs < 2 ^ 64" by simp
  note ih = snoc.IH [OF b]
  show ?case
  proof (cases "is_spu_regs a")
    case False
    with ih show ?thesis by (simp add: add_to_spuid_list_skip spu_ids_snoc)
  next
    case True
    define fd where "fd = the (fst (sscanf_SPU_regs (sec_name a)))"
    have ids: "spu_ids (secs @ [a]) = spu_ids secs @ [fd]"
      using True by (simp add: spu_ids_snoc fd_def)
    have n: "4 * ?n + 4 < 2 ^ 64"
      using snoc.prems length_spu_ids_le [of secs] by simp
    have cnt: "length (filter (slot_in_window offset len) [0..<?n])  \<le> ?n"
      using length_filter_le [of "slot_in_window offset len" "[0..<?n]"] by simp
    have wr: "4 * length (filter (slot_in_window offset len) [0..<?n]) + 4 < 2 ^ 64"
      using n cnt by linarith
    have step: "add_to_spuid_list abfd a ?l =
           (if slot_in_window offset len ?n
            then ?l\<lparr>sl_buf := store_bytes (sl_buf ?l) (4 * ?n - offset)
                                 (store_unsigned_integer 4 (bfd_big_endian abfd) (ULONGEST_of fd)),
                    sl_written := 4 * length (filter (slot_in_window offset len) [0..<?n]) + 4,
                    sl_pos := 4 * ?n + 4\<rparr>
            else ?l\<lparr>sl_pos := 4 * ?n + 4\<rparr>)"
    proof -
      have a: "sl_pos ?l = 4 * ?n" using ih by simp
      have b: "sl_offset ?l + sl_len ?l < 2 ^ 64" using ih assms(1) by simp
      have c: "sl_written ?l + 4 < 2 ^ 64" using ih wr by simp
      have o: "sl_offset ?l = offset" "sl_len ?l = len"
        "sl_written ?l = 4 * length (filter (slot_in_window offset len) [0..<?n])"
        using ih by simp_all
      show ?thesis
        using add_to_spuid_list_nowrap [OF True a n b c, of abfd]
        by (simp only: o fd_def)
    qed
    show ?thesis
    proof (cases "slot_in_window offset len ?n")
      case False
      have st: "fold (add_to_spuid_list abfd) (secs @ [a]) (spuid_list_init rb offset len)
                  = ?l\<lparr>sl_pos := 4 * ?n + 4\<rparr>"
        using False by (simp add: step)
      have bytes: "\<And>j. (if (j + offset) div 4 < Suc ?n
                  \<and> slot_in_window offset len ((j + offset) div 4)
               then id_byte (bfd_big_endian abfd) (spu_ids secs @ [fd]) (j + offset)
               else rb ! j) = (if (j + offset) div 4 < ?n
                  \<and> slot_in_window offset len ((j + offset) div 4)
               then id_byte (bfd_big_endian abfd) (spu_ids secs) (j + offset)
               else rb ! j)"
        using False by (auto simp: id_byte_def nth_append less_Suc_eq)
      show ?thesis
        unfolding st ids using ih False by (simp add: bytes)
    next
      case inw: True
      let ?enc = "store_unsigned_integer 4 (bfd_big_endian abfd) (ULONGEST_of fd)"
      have st: "fold (add_to_spuid_list abfd) (secs @ [a]) (spuid_list_init rb offset len)
                  = ?l\<lparr>sl_buf := store_bytes (sl_buf ?l) (4 * ?n - offset) ?enc,
                        sl_written := 4 * length (filter (slot_in_window offset len) [0..<?n]) + 4,
                        sl_pos := 4 * ?n + 4\<rparr>"
        using inw by (simp add: step)
      have off: "offset \<le> 4 * ?n" using inw by (simp add: slot_in_window_def)
      have bytes: "\<And>j. j < length rb \<Longrightarrow>
               store_bytes (sl_buf ?l) (4 * ?n - offset) ?enc ! j
             = (if (j + offset) div 4 < Suc ?n
                  \<and> slot_in_window offset len ((j + offset) div 4)
               then id_byte (bfd_big_endian abfd) (spu_ids secs @ [fd]) (j + offset)
               else rb ! j)"
      proof -
        fix j assume j: "j < length rb"
        then have jl: "j < length (sl_buf ?l)" using ih by simp
        show "store_bytes (sl_buf ?l) (4 * ?n - offset) ?enc ! j
             = (if (j + offset) div 4 < Suc ?n
                  \<and> slot_in_window offset len ((j + offset) div 4)
               then id_byte (bfd_big_endian abfd) (spu_ids secs @ [fd]) (j + offset)
               else rb ! j)"
        proof (cases "(j + offset) div 4 = ?n")
          case e: True
          then have r: "4 * ?n \<le> j + offset" "j + offset < 4 * ?n + 4" by presburger+
          have m: "(j + offset) mod 4 = j - (4 * ?n - offset)" using r off e by presburger
          have "4 * ?n - offset \<le> j \<and> j < 4 * ?n - offset + 4"
            using r off by linarith
          then have c: "4 * ?n - offset \<le> j \<and> j < 4 * ?n - offset + length ?enc"
            by (simp only: length_store_unsigned_integer)
          have "store_bytes (sl_buf ?l) (4 * ?n - offset) ?enc ! j = ?enc ! (j - (4 * ?n - offset))"
            using c jl by (simp only: nth_store_bytes simp_thms if_True)
          also have "\<dots> = id_byte (bfd_big_endian abfd) (spu_ids secs @ [fd]) (j + offset)"
            by (simp add: id_byte_def e m)
          finally show ?thesis using e inw by simp
        next
          case ne: False
          have r: "\<not> (4 * ?n - offset \<le> j \<and> j < 4 * ?n - offset + 4)"
          proof
            assume "4 * ?n - offset \<le> j \<and> j < 4 * ?n - offset + 4"
            then have lo: "4 * ?n \<le> j + offset" and hi: "j + offset < 4 * ?n + 4"
              using off by linarith+
            have "j + offset < 4 * Suc ?n" using hi by simp
            with lo have "(j + offset) div 4 = ?n" by (rule div_nat_eqI)
            with ne show False by simp
          qed
          have "store_bytes (sl_buf ?l) (4 * ?n - offset) ?enc ! j = sl_buf ?l ! j"
            using r jl by (auto simp: nth_store_bytes)
          also have "\<dots> = (if (j + offset) div 4 < ?n
                  \<and> slot_in_window offset len ((j + offset) div 4)
               then id_byte (bfd_big_endian abfd) (spu_ids secs) (j + offset)
               else rb ! j)"
            using ih j by simp
          also have "\<dots> = (if (j + offset) div 4 < Suc ?n
                  \<and> slot_in_window offset len ((j + offset) div 4)
               then id_byte (bfd_big_endian abfd) (spu_ids secs @ [fd]) (j + offset)
               else rb ! j)"
            using ne by (auto simp: id_byte_def nth_append less_Suc_eq)
          finally show ?thesis .
        qed
      qed
      show ?thesis
        unfolding st ids using ih inw bytes by simp
    qed
  qed
qed


lemma filter_upt_interval:
  "filter (\<lambda>i. a \<le> i \<and> i < b) [0..<n] = [a..<min n b]"
proof (induction n)
  case 0
  show ?case by simp
next
  case (Suc n)
  consider "n < b" "a \<le> n" | "n < b" "n < a" | "b \<le> n" by linarith
  then show ?case
  proof cases
    case 1
    then show ?thesis using Suc by (simp add: min_def)
  next
    case 2
    then show ?thesis using Suc by (simp add: min_def)
  next
    case 3
    then show ?thesis using Suc by (simp add: min_def)
  qed
qed

lemma slot_in_window_aligned:
  "4 dvd offset \<Longrightarrow>
   slot_in_window offset len i = (offset div 4 \<le> i \<and> i < (offset + len) div 4)"
proof -
  assume "4 dvd offset"
  then obtain q where q: "offset = 4 * q" by (auto elim: dvdE)
  have a: "(offset \<le> 4 * i) = (offset div 4 \<le> i)" by (simp add: q)
  have "(Suc i \<le> (offset + len) div 4) = (Suc i * 4 \<le> offset + len)"
    by (rule less_eq_div_iff_mult_less_eq) simp
  then have b: "(4 * i + 4 \<le> offset + len) = (i < (offset + len) div 4)"
    by (simp add: Suc_le_eq mult.commute add.commute)
  show ?thesis unfolding slot_in_window_def a b ..
qed

lemma nth_concat_blocks:
  "(\<And>x. length (f x) = 4) \<Longrightarrow> k < 4 * length xs \<Longrightarrow>
   concat (map f xs) ! k = f (xs ! (k div 4)) ! (k mod 4)"
proof (induction xs arbitrary: k)
  case Nil
  then show ?case by simp
next
  case (Cons x xs)
  show ?case
  proof (cases "k < 4")
    case True
    then show ?thesis using Cons.prems(1) [of x] by (simp add: nth_append)
  next
    case False
    then have k: "k - 4 < 4 * length xs" using Cons.prems(2) by simp
    have d: "k div 4 = Suc ((k - 4) div 4)" "k mod 4 = (k - 4) mod 4"
      using False by presburger+
    have "concat (map f (x # xs)) ! k = concat (map f xs) ! (k - 4)"
      using False Cons.prems(1) [of x] by (simp add: nth_append)
    also have "\<dots> = f (xs ! ((k - 4) div 4)) ! ((k - 4) mod 4)"
      using Cons.IH [OF Cons.prems(1) k] by simp
    finally show ?thesis by (simp add: d)
  qed
qed

lemma length_spu_id_bytes [simp]: "length (spu_id_bytes big ids) = 4 * length ids"
  by (induction ids) (simp_all add: spu_id_bytes_def)

lemma nth_spu_id_bytes:
  "k < 4 * length ids \<Longrightarrow> spu_id_bytes big ids ! k = id_byte big ids k"
  unfolding spu_id_bytes_def id_byte_def
  using nth_concat_blocks [of "\<lambda>fd. store_unsigned_integer 4 big (ULONGEST_of fd)" k ids]
  by simp

lemma xfer_case_SPU_list:
  "xfer_case_SPU cbfd None (Some rb) offset len =
     (let list = fold (add_to_spuid_list cbfd) (bfd_sections cbfd) (spuid_list_init rb offset len)
      in if sl_written list = 0 then xfer_return TARGET_XFER_EOF (Some (sl_buf list))
         else \<lparr>xr_status = TARGET_XFER_OK, xr_xfered_len = Some (sl_written list),
               xr_readbuf = Some (sl_buf list), xr_warnings = []\<rparr>)"
  by (simp add: xfer_case_SPU_def bfd_map_over_sections_def spuid_list_init_def)

text \<open>The walk on example containers.\<close>

lemma sscanf_SPU_regs_examples:
  "sscanf_SPU_regs ''SPU/3/regs'' = (Some 3, 10)"
  "sscanf_SPU_regs ''SPU/7/regs'' = (Some 7, 10)"
  "sscanf_SPU_regs ''SPU/9/regs'' = (Some 9, 10)"
  "sscanf_SPU_regs ''SPU/3/mem'' = (Some 3, 0)"
  by (simp_all add: sscanf_SPU_regs_def scan_int_def is_space_def is_digit_def clamp_long_def
      int_of_long_def)

lemma store_examples:
  "store_unsigned_integer 4 True (ULONGEST_of 3) = [0, 0, 0, 3]"
  "store_unsigned_integer 4 True (ULONGEST_of 7) = [0, 0, 0, 7]"
  by (simp_all add: store_unsigned_integer_def ULONGEST_of_def upt_rec)

lemma store_examples2:
  "store_unsigned_integer 4 True (ULONGEST_of 9) = [0, 0, 0, 9]"
  by (simp_all add: store_unsigned_integer_def ULONGEST_of_def upt_rec)

lemma example_walk_3_7_9:
  "fold (add_to_spuid_list
           (example_bfd [example_section ''SPU/3/regs'' 0 4, example_section ''SPU/7/regs'' 4 4,
                         example_section ''SPU/9/regs'' 8 4] 0 None))
        [example_section ''SPU/3/regs'' 0 4, example_section ''SPU/7/regs'' 4 4,
         example_section ''SPU/9/regs'' 8 4]
        (spuid_list_init [9, 9, 9, 9, 9, 9, 9, 9] 2 8) =
     \<lparr>sl_buf = [9, 9, 0, 0, 0, 7, 9, 9], sl_offset = 2, sl_len = 8, sl_pos = 12,
      sl_written = 4\<rparr>"
  by (simp add: add_to_spuid_list_def sscanf_SPU_regs_examples store_examples store_examples2
      spuid_list_init_def example_defs)

lemma example_xfer_7_3:
  "xfer_case_SPU
      (example_bfd [example_section ''SPU/7/regs'' 0 4, example_section ''SPU/3/regs'' 4 4] 0 None)
      None (Some [9, 9, 9, 9, 9, 9, 9, 9]) 0 8 =
     \<lparr>xr_status = TARGET_XFER_OK, xr_xfered_len = Some 8,
      xr_readbuf = Some [0, 0, 0, 7, 0, 0, 0, 3], xr_warnings = []\<rparr>"
  by (simp add: xfer_case_SPU_def bfd_map_over_sections_def add_to_spuid_list_def
      sscanf_SPU_regs_examples store_examples example_defs)

lemma example_spu_ids:
  "spu_ids [example_section ''SPU/7/regs'' 0 4, example_section ''SPU/3/regs'' 4 4] = [7, 3]"
  "spu_ids [example_section ''SPU/3/regs'' 0 4, example_section ''SPU/7/regs'' 4 4,
            example_section ''SPU/3/mem'' 8 4] = [3, 7]"
  "spu_ids [example_section ''SPU/3/regs'' 0 4, example_section ''SPU/7/regs'' 4 4,
            example_section ''SPU/9/regs'' 8 4] = [3, 7, 9]"
  by (simp_all add: spu_ids_def is_spu_regs_def sscanf_SPU_regs_examples example_section_def)

text \<open>
  Claim C10.  For a read of object SPU with a null annex: the length written is
  always a multiple of 4 and the logical position ends at 4 times the number of
  matching sections (both in \<^verbatim>\<open>ULONGEST\<close> arithmetic), and the answer is end-of-file
  exactly when nothing was written.  When the window and the section count do not
  wrap around, identifier number \<open>i\<close> is emitted exactly when its whole slot
  \<open>[4 i, 4 i + 4)\<close> lies within \<open>[offset, offset + len)\<close>: every byte of the buffer
  is either a byte of such a slot, at its place \<open>4 i - offset\<close>, or the byte the caller
  passed in, so no identifier is ever written in part.
\<close>

theorem spu_id_list_all_or_nothing:
  "let ids = spu_ids (bfd_sections cbfd);
       emitted = filter (slot_in_window offset len) [0..<length ids];
       list = bfd_map_over_sections cbfd add_to_spuid_list (spuid_list_init rb offset len);
       r = core_xfer_partial ext cops cbfd ptid TARGET_OBJECT_SPU None (Some rb) writebuf
             offset len
   in 4 dvd sl_written list
    \<and> sl_pos list = (4 * length ids) mod 2 ^ 64
    \<and> xr_status r = (if sl_written list = 0 then TARGET_XFER_EOF else TARGET_XFER_OK)
    \<and> xr_xfered_len r = (if sl_written list = 0 then None else Some (sl_written list))
    \<and> xr_readbuf r = Some (sl_buf list)
    \<and> (offset + len < 2 ^ 64 \<and> 4 * length (bfd_sections cbfd) < 2 ^ 64 \<longrightarrow>
          sl_pos list = 4 * length ids
        \<and> sl_written list = 4 * length emitted
        \<and> length (sl_buf list) = length rb
        \<and> (\<forall>j<length rb.
              sl_buf list ! j =
                (if (j + offset) div 4 < length ids
                    \<and> slot_in_window offset len ((j + offset) div 4)
                 then id_byte (bfd_big_endian cbfd) ids (j + offset)
                 else rb ! j)))"
proof -
  let ?list = "fold (add_to_spuid_list cbfd) (bfd_sections cbfd) (spuid_list_init rb offset len)"
  have m: "4 dvd sl_written ?list" "sl_pos ?list = (4 * length (spu_ids (bfd_sections cbfd))) mod 2 ^ 64"
    using spu_walk_modular [of cbfd "bfd_sections cbfd" rb offset len] by simp_all
  have r: "xr_status (xfer_case_SPU cbfd None (Some rb) offset len) =
             (if sl_written ?list = 0 then TARGET_XFER_EOF else TARGET_XFER_OK)"
      "xr_xfered_len (xfer_case_SPU cbfd None (Some rb) offset len) =
             (if sl_written ?list = 0 then None else Some (sl_written ?list))"
      "xr_readbuf (xfer_case_SPU cbfd None (Some rb) offset len) = Some (sl_buf ?list)"
    by (simp_all add: xfer_case_SPU_list Let_def xfer_return_def)
  have i: "offset + len < 2 ^ 64 \<and> 4 * length (bfd_sections cbfd) < 2 ^ 64 \<longrightarrow>
          sl_pos ?list = 4 * length (spu_ids (bfd_sections cbfd))
        \<and> sl_written ?list =
            4 * length (filter (slot_in_window offset len) [0..<length (spu_ids (bfd_sections cbfd))])
        \<and> length (sl_buf ?list) = length rb
        \<and> (\<forall>j<length rb.
              sl_buf ?list ! j =
                (if (j + offset) div 4 < length (spu_ids (bfd_sections cbfd))
                    \<and> slot_in_window offset len ((j + offset) div 4)
                 then id_byte (bfd_big_endian cbfd) (spu_ids (bfd_sections cbfd)) (j + offset)
                 else rb ! j))"
    using spu_walk_invariant [of offset len "bfd_sections cbfd" cbfd rb]
    by (simp add: Let_def)
  show ?thesis
    unfolding Let_def bfd_map_over_sections_def core_xfer_partial.simps
    using m r i by blast
qed

text \<open>Three identifiers, a window of 8 bytes at offset 2: only the second one fits.\<close>

theorem spu_id_list_all_or_nothing_witness:
  "(2::nat) + 8 < 2 ^ 64
   \<and> sl_pos (bfd_map_over_sections
        (example_bfd [example_section ''SPU/3/regs'' 0 4, example_section ''SPU/7/regs'' 4 4,
                      example_section ''SPU/9/regs'' 8 4] 0 None)
        add_to_spuid_list (spuid_list_init [9, 9, 9, 9, 9, 9, 9, 9] 2 8)) = 12
   \<and> xr_xfered_len (core_xfer_partial example_externals example_cops
        (example_bfd [example_section ''SPU/3/regs'' 0 4, example_section ''SPU/7/regs'' 4 4,
                      example_section ''SPU/9/regs'' 8 4] 0 None)
        null_ptid TARGET_OBJECT_SPU None (Some [9, 9, 9, 9, 9, 9, 9, 9]) None 2 8) = Some 4
   \<and> xr_readbuf (core_xfer_partial example_externals example_cops
        (example_bfd [example_section ''SPU/3/regs'' 0 4, example_section ''SPU/7/regs'' 4 4,
                      example_section ''SPU/9/regs'' 8 4] 0 None)
        null_ptid TARGET_OBJECT_SPU None (Some [9, 9, 9, 9, 9, 9, 9, 9]) None 2 8)
       = Some [9, 9, 0, 0, 0, 7, 9, 9]"
proof -
  let ?B = "example_bfd [example_section ''SPU/3/regs'' 0 4, example_section ''SPU/7/regs'' 4 4,
                      example_section ''SPU/9/regs'' 8 4] 0 None"
  let ?rb = "[9, 9, 9, 9, 9, 9, 9, 9] :: byte list"
  note t = spu_id_list_all_or_nothing
    [of ?B 2 8 ?rb example_externals example_cops null_ptid None, unfolded Let_def]
  have secs: "bfd_sections ?B = [example_section ''SPU/3/regs'' 0 4,
      example_section ''SPU/7/regs'' 4 4, example_section ''SPU/9/regs'' 8 4]"
    by (simp add: example_bfd_def)
  have h: "(2::nat) + 8 < 2 ^ 64 \<and> 4 * length (bfd_sections ?B) < 2 ^ 64"
    by (simp add: secs)
  have w: "bfd_map_over_sections ?B add_to_spuid_list (spuid_list_init ?rb 2 8) =
     \<lparr>sl_buf = [9, 9, 0, 0, 0, 7, 9, 9], sl_offset = 2, sl_len = 8, sl_pos = 12,
      sl_written = 4\<rparr>"
    unfolding bfd_map_over_sections_def secs by (rule example_walk_3_7_9)
  have p: "sl_pos (bfd_map_over_sections ?B add_to_spuid_list (spuid_list_init ?rb 2 8)) =
           4 * length (spu_ids (bfd_sections ?B))"
    using t h by blast
  have x: "xr_xfered_len (core_xfer_partial example_externals example_cops ?B null_ptid
             TARGET_OBJECT_SPU None (Some ?rb) None 2 8) =
           (if sl_written (bfd_map_over_sections ?B add_to_spuid_list (spuid_list_init ?rb 2 8)) = 0
            then None
            else Some (sl_written (bfd_map_over_sections ?B add_to_spuid_list
                                     (spuid_list_init ?rb 2 8))))"
    using t by blast
  have b: "xr_readbuf (core_xfer_partial example_externals example_cops ?B null_ptid
             TARGET_OBJECT_SPU None (Some ?rb) None 2 8) =
           Some (sl_buf (bfd_map_over_sections ?B add_to_spuid_list (spuid_list_init ?rb 2 8)))"
    using t by blast
  have p12: "sl_pos (bfd_map_over_sections ?B add_to_spuid_list (spuid_list_init ?rb 2 8)) = 12"
    unfolding p secs example_spu_ids by simp
  show ?thesis
    unfolding x b using p12 h by (simp add: w)
qed


text \<open>
  Claim C8, as the code has it.  The identifiers are those of the sections whose
  name starts with \<^verbatim>\<open>SPU/<id>/regs\<close>, taken in the order of the container's
  sections, not sorted.  For an offset that is a multiple of 4 (and a window and a
  section count that do not wrap around, and a buffer of at least \<open>len\<close> bytes)
  the bytes returned are the 4-byte encodings, in the container's byte order, of
  the identifiers whose whole slot lies within \<open>[offset, offset + len)\<close>: the
  concatenation of all encodings from \<open>offset\<close> on, cut to the \<open>w\<close> bytes of the
  whole slots that fit.  When no slot fits the answer is end-of-file and the buffer
  is untouched.
\<close>

theorem spu_id_list_aligned:
  assumes "4 dvd offset" and "offset + len < 2 ^ 64"
    and "4 * length (bfd_sections cbfd) < 2 ^ 64" and "len \<le> length rb"
  shows "let ids = spu_ids (bfd_sections cbfd);
             w = 4 * (min (length ids) ((offset + len) div 4) - offset div 4);
             r = core_xfer_partial ext cops cbfd ptid TARGET_OBJECT_SPU None (Some rb) writebuf
                   offset len
         in if w = 0 then r = xfer_return TARGET_XFER_EOF (Some rb)
            else xr_status r = TARGET_XFER_OK \<and> xr_xfered_len r = Some w
               \<and> xr_warnings r = []
               \<and> map_option (take w) (xr_readbuf r) =
                   Some (take w (drop offset (spu_id_bytes (bfd_big_endian cbfd) ids)))"
proof -
  let ?list = "fold (add_to_spuid_list cbfd) (bfd_sections cbfd) (spuid_list_init rb offset len)"
  let ?ids = "spu_ids (bfd_sections cbfd)"
  let ?big = "bfd_big_endian cbfd"
  define n where "n = length ?ids"
  define q where "q = offset div 4"
  define e where "e = (offset + len) div 4"
  define m where "m = min n e"
  define w where "w = 4 * (m - q)"
  define bytes where "bytes = spu_id_bytes ?big ?ids"
  note inv = spu_walk_invariant [OF assms(2,3), of cbfd rb, unfolded Let_def]
  have win: "slot_in_window offset len = (\<lambda>i. q \<le> i \<and> i < e)"
    using slot_in_window_aligned [OF assms(1)] unfolding q_def e_def by (intro ext) simp
  have cnt: "length (filter (slot_in_window offset len) [0..<n]) = m - q"
    unfolding win filter_upt_interval m_def by simp
  have wr: "sl_written ?list = w" using inv cnt unfolding w_def n_def by simp
  have len: "length (sl_buf ?list) = length rb" using inv by simp
  have q4: "4 * q = offset" using assms(1) unfolding q_def by simp
  have e4: "4 * e \<le> offset + len" unfolding e_def by simp
  have mn: "m \<le> n" and me: "m \<le> e" unfolding m_def by simp_all
  have wlen: "w \<le> len" unfolding w_def using q4 e4 me by linarith
  have wn: "offset + w \<le> 4 * n" if "w \<noteq> 0"
    using that q4 mn unfolding w_def by linarith
  have lb: "length bytes = 4 * n" unfolding bytes_def n_def by simp
  have nth: "\<And>j. j < length rb \<Longrightarrow> sl_buf ?list ! j =
                (if (j + offset) div 4 < n \<and> slot_in_window offset len ((j + offset) div 4)
                 then id_byte ?big ?ids (j + offset) else rb ! j)"
    using inv unfolding n_def by simp
  have res: "xfer_case_SPU cbfd None (Some rb) offset len =
             (if w = 0 then xfer_return TARGET_XFER_EOF (Some (sl_buf ?list))
              else \<lparr>xr_status = TARGET_XFER_OK, xr_xfered_len = Some w,
                    xr_readbuf = Some (sl_buf ?list), xr_warnings = []\<rparr>)"
    by (simp add: xfer_case_SPU_list Let_def wr)
  have goal: "if w = 0
      then core_xfer_partial ext cops cbfd ptid TARGET_OBJECT_SPU None (Some rb) writebuf
             offset len = xfer_return TARGET_XFER_EOF (Some rb)
      else xr_status (core_xfer_partial ext cops cbfd ptid TARGET_OBJECT_SPU None (Some rb)
             writebuf offset len) = TARGET_XFER_OK
         \<and> xr_xfered_len (core_xfer_partial ext cops cbfd ptid TARGET_OBJECT_SPU None (Some rb)
             writebuf offset len) = Some w
         \<and> xr_warnings (core_xfer_partial ext cops cbfd ptid TARGET_OBJECT_SPU None (Some rb)
             writebuf offset len) = []
         \<and> map_option (take w) (xr_readbuf (core_xfer_partial ext cops cbfd ptid
             TARGET_OBJECT_SPU None (Some rb) writebuf offset len)) =
               Some (take w (drop offset bytes))"
  proof (cases "w = 0")
    case True
    then have mq: "m \<le> q" unfolding w_def by simp
    have none: "\<And>i. i < n \<Longrightarrow> \<not> slot_in_window offset len i"
    proof
      fix i assume "i < n" and "slot_in_window offset len i"
      then have "q \<le> i" "i < e" "i < n" unfolding win by simp_all
      then have "q < m" unfolding m_def by simp
      with mq show False by simp
    qed
    have "sl_buf ?list = rb"
    proof (rule nth_equalityI)
      show "length (sl_buf ?list) = length rb" by (rule len)
    next
      fix j assume "j < length (sl_buf ?list)"
      then have jl: "j < length rb" using len by simp
      have "\<not> ((j + offset) div 4 < n \<and> slot_in_window offset len ((j + offset) div 4))"
        using none [of "(j + offset) div 4"] by blast
      then show "sl_buf ?list ! j = rb ! j"
        using nth [OF jl] by (simp only: if_False)
    qed
    then show ?thesis using True by (simp add: res)
  next
    case False
    have "take w (sl_buf ?list) = take w (drop offset bytes)"
    proof (rule nth_equalityI)
      have "length (take w (sl_buf ?list)) = w" using len wlen assms(4) by simp
      moreover have "length (take w (drop offset bytes)) = w"
        using wn [OF False] lb by simp
      ultimately show "length (take w (sl_buf ?list)) = length (take w (drop offset bytes))"
        by simp
    next
      fix j assume "j < length (take w (sl_buf ?list))"
      then have jw: "j < w" by simp
      then have jl: "j < length rb" using wlen assms(4) by linarith
      have jq: "j + offset = 4 * (j div 4 + q) + j mod 4" using q4 by simp
      have d: "(j + offset) div 4 = j div 4 + q"
        by (subst jq) simp
      have "j div 4 < m - q" using jw unfolding w_def by simp
      then have iw: "j div 4 + q < m" by simp
      then have sw: "slot_in_window offset len ((j + offset) div 4)"
        unfolding win d m_def by simp
      have inn: "(j + offset) div 4 < n" unfolding d using iw mn by simp
      have b: "offset + j < 4 * n" using jw wn [OF False] by simp
      have "take w (sl_buf ?list) ! j = sl_buf ?list ! j" using jw by simp
      also have "\<dots> = id_byte ?big ?ids (j + offset)"
        using nth [OF jl] sw inn by (simp only: simp_thms if_True)
      also have "\<dots> = bytes ! (offset + j)"
        unfolding bytes_def using nth_spu_id_bytes [of "offset + j" ?ids ?big] b
        unfolding n_def by (simp only: add.commute [of j offset])
      also have "\<dots> = take w (drop offset bytes) ! j"
        using jw b lb by simp
      finally show "take w (sl_buf ?list) ! j = take w (drop offset bytes) ! j" .
    qed
    then show ?thesis using False by (simp add: res)
  qed
  show ?thesis
    unfolding Let_def using goal
    unfolding w_def m_def n_def e_def q_def bytes_def .
qed

text \<open>
  The scenario of the specification: sections \<^verbatim>\<open>SPU/3/regs\<close>, \<^verbatim>\<open>SPU/7/regs\<close> and
  \<^verbatim>\<open>SPU/3/mem\<close>, 8 bytes at offset 0.
\<close>

theorem spu_id_list_aligned_witness:
  "(4::nat) dvd 0 \<and> (0::nat) + 8 < 2 ^ 64
   \<and> xr_status (core_xfer_partial example_externals example_cops
        (example_bfd [example_section ''SPU/3/regs'' 0 4, example_section ''SPU/7/regs'' 4 4,
                      example_section ''SPU/3/mem'' 8 4] 0 None)
        null_ptid TARGET_OBJECT_SPU None (Some [9, 9, 9, 9, 9, 9, 9, 9]) None 0 8)
       = TARGET_XFER_OK
   \<and> xr_xfered_len (core_xfer_partial example_externals example_cops
        (example_bfd [example_section ''SPU/3/regs'' 0 4, example_section ''SPU/7/regs'' 4 4,
                      example_section ''SPU/3/mem'' 8 4] 0 None)
        null_ptid TARGET_OBJECT_SPU None (Some [9, 9, 9, 9, 9, 9, 9, 9]) None 0 8)
       = Some 8
   \<and> map_option (take 8) (xr_readbuf (core_xfer_partial example_externals example_cops
        (example_bfd [example_section ''SPU/3/regs'' 0 4, example_section ''SPU/7/regs'' 4 4,
                      example_section ''SPU/3/mem'' 8 4] 0 None)
        null_ptid TARGET_OBJECT_SPU None (Some [9, 9, 9, 9, 9, 9, 9, 9]) None 0 8))
       = Some [0, 0, 0, 3, 0, 0, 0, 7]"
proof -
  let ?B = "example_bfd [example_section ''SPU/3/regs'' 0 4, example_section ''SPU/7/regs'' 4 4,
                      example_section ''SPU/3/mem'' 8 4] 0 None"
  let ?rb = "[9, 9, 9, 9, 9, 9, 9, 9] :: byte list"
  have secs: "bfd_sections ?B = [example_section ''SPU/3/regs'' 0 4,
      example_section ''SPU/7/regs'' 4 4, example_section ''SPU/3/mem'' 8 4]"
    and big: "bfd_big_endian ?B = True"
    by (simp_all add: example_bfd_def)
  have h1: "(4::nat) dvd 0" and h2: "(0::nat) + 8 < 2 ^ 64"
    and h3: "4 * length (bfd_sections ?B) < 2 ^ 64" and h4: "8 \<le> length ?rb"
    by (simp_all add: secs)
  have w: "4 * (min (length (spu_ids (bfd_sections ?B))) ((0 + 8) div 4) - 0 div 4) = 8"
    unfolding secs example_spu_ids by simp
  have bytes: "take 8 (drop 0 (spu_id_bytes True [3, 7])) = [0, 0, 0, 3, 0, 0, 0, 7]"
    by (simp add: spu_id_bytes_def store_examples)
  note t = spu_id_list_aligned [OF h1 h2 h3 h4, of example_externals example_cops null_ptid None,
      unfolded Let_def w]
  show ?thesis
    using t h1 h2 unfolding secs big example_spu_ids bytes by simp
qed

text \<open>
  The claim as stated fails on a container that lists \<^verbatim>\<open>SPU/7/regs\<close> before
  \<^verbatim>\<open>SPU/3/regs\<close>: the bytes returned encode 7, 3 and not the ascending 3, 7.
\<close>

theorem spu_id_list_not_ascending:
  "xr_readbuf (core_xfer_partial example_externals example_cops
      (example_bfd [example_section ''SPU/7/regs'' 0 4, example_section ''SPU/3/regs'' 4 4] 0 None)
      null_ptid TARGET_OBJECT_SPU None (Some [9, 9, 9, 9, 9, 9, 9, 9]) None 0 8)
     = Some [0, 0, 0, 7, 0, 0, 0, 3]
   \<and> spu_id_bytes True
        (sort (spu_ids [example_section ''SPU/7/regs'' 0 4, example_section ''SPU/3/regs'' 4 4]))
     = [0, 0, 0, 3, 0, 0, 0, 7]"
  by (simp add: example_xfer_7_3 example_spu_ids spu_id_bytes_def store_examples)



subsection \<open>The thread list\<close>

lemma is_digit_not_space: "is_digit c \<Longrightarrow> \<not> is_space c \<and> c \<noteq> CHR ''-'' \<and> c \<noteq> CHR ''+''"
  by (auto simp: is_digit_def is_space_def)

lemma digits_value_mono: "list_all is_digit ds \<Longrightarrow> acc \<le> digits_value ds acc \<or> acc < 0"
proof (induction ds arbitrary: acc)
  case Nil
  show ?case by simp
next
  case (Cons c ds)
  then have c: "48 \<le> int (of_char c)" by (simp add: is_digit_def)
  from Cons have d: "list_all is_digit ds" by simp
  show ?case
  proof (cases "acc < 0")
    case True then show ?thesis by simp
  next
    case False
    then have "acc \<le> acc * 10 + (int (of_char c) - 48)" using c by simp
    moreover have "\<not> acc * 10 + (int (of_char c) - 48) < 0" using False c by simp
    ultimately show ?thesis using Cons.IH [OF d, of "acc * 10 + (int (of_char c) - 48)"] by simp
  qed
qed

lemma atoi_leading_digits:
  assumes "ds \<noteq> []" and "list_all is_digit ds" and "rest = [] \<or> \<not> is_digit (hd rest)"
    and "digits_value ds 0 < 2 ^ 31"
  shows "atoi (ds @ rest) = digits_value ds 0"
proof -
  obtain c r where ds: "ds = c # r" using assms(1) by (cases ds) auto
  have c: "is_digit c" using assms(2) ds by simp
  have sp: "dropWhile is_space (ds @ rest) = ds @ rest"
    using is_digit_not_space [OF c] ds by simp
  have tr: "takeWhile is_digit rest = []" using assms(3) by (cases rest) auto
  have tw: "takeWhile is_digit (ds @ rest) = ds"
    using assms(2) tr by (simp add: list_all_iff takeWhile_append2)
  have nn: "0 \<le> digits_value ds 0" using digits_value_mono [OF assms(2), of 0] by simp
  have cl: "clamp_long (digits_value ds 0) = digits_value ds 0"
    using nn assms(4) by (simp add: clamp_long_def)
  have il: "int_of_long (digits_value ds 0) = digits_value ds 0"
    using nn assms(4) by (simp add: int_of_long_def)
  have s2: "(case ds @ rest of [] \<Rightarrow> [] | c # r \<Rightarrow> if c = CHR ''-'' \<or> c = CHR ''+'' then r else ds @ rest)
            = ds @ rest"
    using is_digit_not_space [OF c] by (simp add: ds)
  have ng: "(case ds @ rest of [] \<Rightarrow> False | c # _ \<Rightarrow> c = CHR ''-'') = False"
    using is_digit_not_space [OF c] by (simp add: ds)
  have "scan_int (ds @ rest) = Some (digits_value ds 0, dropWhile is_digit (ds @ rest))"
    unfolding scan_int_def sp s2 ng Let_def tw using cl il assms(1) by simp
  then show ?thesis by (simp add: atoi_def)
qed

text \<open>
  Claim C5, as the code has it.  For a section whose name begins with \<^verbatim>\<open>.reg/\<close>
  the LWP number is \<^verbatim>\<open>atoi\<close> of the tail after the slash, and the thread
  \<open>(pid, atoi tail, 0)\<close> is put at the end of the thread list (a record with the same
  id is deleted first) in every case: no tail is set aside as unrecognized.  Of
  \<^verbatim>\<open>atoi\<close>: a tail in which it finds no number gives 0, and a tail that starts with
  decimal digits, followed by nothing or by a character that is not a digit, gives
  the value of those digits when that value is below \<open>2 ^ 31\<close>.
\<close>

theorem add_to_thread_list_creates_thread:
  assumes "startswith (sec_name asect) ''.reg/''" and "core_bfd s = Some cb"
  shows "thread_list (add_to_thread_list abfd asect reg_sect s) =
           filter (\<lambda>t. t \<noteq> ptid_build (core_pid cb) (atoi (drop 5 (sec_name asect))) 0)
             (thread_list s)
           @ [ptid_build (core_pid cb) (atoi (drop 5 (sec_name asect))) 0]
       \<and> (scan_int (drop 5 (sec_name asect)) = None \<longrightarrow> atoi (drop 5 (sec_name asect)) = 0)
       \<and> (drop 5 (sec_name asect) = ds @ rest \<and> ds \<noteq> [] \<and> list_all is_digit ds
            \<and> (rest = [] \<or> \<not> is_digit (hd rest)) \<and> digits_value ds 0 < 2 ^ 31 \<longrightarrow>
          atoi (drop 5 (sec_name asect)) = digits_value ds 0)"
proof -
  have "thread_list (add_to_thread_list abfd asect reg_sect s) =
           filter (\<lambda>t. t \<noteq> ptid_build (core_pid cb) (atoi (drop 5 (sec_name asect))) 0)
             (thread_list s)
           @ [ptid_build (core_pid cb) (atoi (drop 5 (sec_name asect))) 0]"
    using assms
    by (simp add: add_to_thread_list_def add_thread_def core_pid_def Let_def split: option.splits)
  moreover have "scan_int (drop 5 (sec_name asect)) = None \<longrightarrow> atoi (drop 5 (sec_name asect)) = 0"
    by (simp add: atoi_def)
  moreover have "drop 5 (sec_name asect) = ds @ rest \<and> ds \<noteq> [] \<and> list_all is_digit ds
            \<and> (rest = [] \<or> \<not> is_digit (hd rest)) \<and> digits_value ds 0 < 2 ^ 31 \<longrightarrow>
          atoi (drop 5 (sec_name asect)) = digits_value ds 0"
    using atoi_leading_digits [of ds rest] by auto
  ultimately show ?thesis by blast
qed

lemma scan_int_abc: "scan_int ''abc'' = None"
  by (simp add: scan_int_def is_space_def is_digit_def)

lemma atoi_17: "atoi ''17'' = 17"
  by (simp add: atoi_def scan_int_def is_space_def is_digit_def clamp_long_def int_of_long_def)

text \<open>
  \<^verbatim>\<open>atoi\<close> on tails that are not a decimal number below \<open>2 ^ 31\<close>: digits followed by
  letters, no digit, a value that does not fit an \<^verbatim>\<open>int\<close>, white space and a sign.
\<close>

lemma atoi_examples:
  "atoi ''12abc'' = 12" "atoi ''abc'' = 0" "atoi ''4294967299'' = 3" "atoi '' -5'' = - 5"
  by (simp_all add: atoi_def scan_int_def is_space_def is_digit_def clamp_long_def int_of_long_def)

theorem add_to_thread_list_creates_thread_witness:
  "startswith ''.reg/17'' ''.reg/''
   \<and> thread_list (add_to_thread_list
           (example_bfd [example_section ''.reg/17'' 100 16] 4321 None)
           (example_section ''.reg/17'' 100 16) None
           (example_state\<lparr>core_bfd := Some (example_bfd [example_section ''.reg/17'' 100 16] 4321 None)\<rparr>))
     = [ptid_build 4321 17 0]
   \<and> list_all is_digit ''17'' \<and> digits_value ''17'' 0 = 17 \<and> atoi ''17'' = 17"
  using add_to_thread_list_creates_thread
    [of "example_section ''.reg/17'' 100 16"
        "example_state\<lparr>core_bfd := Some (example_bfd [example_section ''.reg/17'' 100 16] 4321 None)\<rparr>"
        "example_bfd [example_section ''.reg/17'' 100 16] 4321 None"
        "example_bfd [example_section ''.reg/17'' 100 16] 4321 None" None "''17''" "[]"]
  by (simp add: startswith_def example_section_def example_bfd_def example_state_def core_pid_def
      atoi_17 is_digit_def)

text \<open>
  The claim as stated fails on the section \<^verbatim>\<open>.reg/abc\<close>: its tail has no digit and
  the walk still creates the thread \<open>(4321, 0, 0)\<close> from it.
\<close>

theorem non_numeric_tail_creates_thread:
  "scan_int (drop 5 ''.reg/abc'') = None
   \<and> thread_list (example_state\<lparr>core_bfd := Some (example_bfd [example_section ''.reg/abc'' 100 16] 4321 None)\<rparr>) = []
   \<and> thread_list (add_to_thread_list
        (example_bfd [example_section ''.reg/abc'' 100 16] 4321 None)
        (example_section ''.reg/abc'' 100 16) None
        (example_state\<lparr>core_bfd := Some (example_bfd [example_section ''.reg/abc'' 100 16] 4321 None)\<rparr>))
     = [ptid_build 4321 0 0]"
  by (simp add: add_to_thread_list_def add_thread_def startswith_def example_section_def
      example_bfd_def example_state_def atoi_def scan_int_abc inferior_appeared_def)


lemma add_to_thread_list_core_bfd [simp]:
  "core_bfd (add_to_thread_list abfd a reg s) = core_bfd s"
  by (simp add: add_to_thread_list_def add_thread_def Let_def split: option.splits)

lemma add_to_thread_list_inferior_ptid:
  "core_bfd s = Some cb \<Longrightarrow>
   inferior_ptid (add_to_thread_list abfd a reg s) =
     (if reg_alias reg a then thread_of_section cb a else inferior_ptid s)"
  by (simp add: add_to_thread_list_def add_thread_def reg_alias_def thread_of_section_def
      core_pid_def Let_def split: option.splits)

lemma add_to_thread_list_keeps_threads:
  "t \<in> set (thread_list s) \<Longrightarrow> t \<in> set (thread_list (add_to_thread_list abfd a reg s))"
  by (auto simp: add_to_thread_list_def add_thread_def Let_def split: option.splits)

lemma add_to_thread_list_new_thread:
  "core_bfd s = Some cb \<Longrightarrow> startswith (sec_name a) ''.reg/'' \<Longrightarrow>
   thread_of_section cb a \<in> set (thread_list (add_to_thread_list abfd a reg s))"
  by (simp add: add_to_thread_list_def add_thread_def thread_of_section_def core_pid_def Let_def
      split: option.splits)

lemma thread_walk:
  assumes "core_bfd s = Some cb"
  shows "core_bfd (fold (\<lambda>a. add_to_thread_list abfd a reg) secs s) = Some cb
       \<and> inferior_ptid (fold (\<lambda>a. add_to_thread_list abfd a reg) secs s) =
           (if filter (reg_alias reg) secs = [] then inferior_ptid s
            else thread_of_section cb (last (filter (reg_alias reg) secs)))
       \<and> (\<forall>a\<in>set secs. startswith (sec_name a) ''.reg/'' \<longrightarrow>
             thread_of_section cb a
               \<in> set (thread_list (fold (\<lambda>a. add_to_thread_list abfd a reg) secs s)))"
proof (induction secs rule: rev_induct)
  case Nil
  show ?case using assms by simp
next
  case (snoc a secs)
  let ?s = "fold (\<lambda>a. add_to_thread_list abfd a reg) secs s"
  have cb: "core_bfd ?s = Some cb" using snoc by simp
  have 1: "core_bfd (add_to_thread_list abfd a reg ?s) = Some cb" using cb by simp
  have 2: "inferior_ptid (add_to_thread_list abfd a reg ?s) =
           (if filter (reg_alias reg) (secs @ [a]) = [] then inferior_ptid s
            else thread_of_section cb (last (filter (reg_alias reg) (secs @ [a]))))"
    using snoc by (simp add: add_to_thread_list_inferior_ptid [OF cb])
  have 3: "\<forall>x\<in>set (secs @ [a]). startswith (sec_name x) ''.reg/'' \<longrightarrow>
             thread_of_section cb x \<in> set (thread_list (add_to_thread_list abfd a reg ?s))"
    using snoc add_to_thread_list_keeps_threads [of _ ?s abfd a reg]
      add_to_thread_list_new_thread [OF cb, of a abfd reg]
    by auto
  show ?case using 1 2 3 by simp
qed

lemma thread_of_section_not_null: "thread_of_section cb a \<noteq> null_ptid"
  by (simp add: thread_of_section_def core_pid_def ptid_build_def null_ptid_def CORELOW_PID_def)

lemma core_open_threads_current:
  assumes "core_bfd s = Some cb"
    and "filter (reg_alias (bfd_get_section_by_name cb ''.reg'')) (bfd_sections cb) \<noteq> []"
  shows "inferior_ptid (core_open_threads cb s) =
           thread_of_section cb
             (last (filter (reg_alias (bfd_get_section_by_name cb ''.reg'')) (bfd_sections cb)))
       \<and> inferior_ptid (core_open_threads cb s) \<in> set (thread_list (core_open_threads cb s))
       \<and> core_bfd (core_open_threads cb s) = Some cb"
proof -
  let ?reg = "bfd_get_section_by_name cb ''.reg''"
  let ?M = "filter (reg_alias ?reg) (bfd_sections cb)"
  let ?s2 = "(init_thread_list s)\<lparr>inferior_ptid := null_ptid\<rparr>"
  let ?s3 = "fold (\<lambda>a. add_to_thread_list cb a ?reg) (bfd_sections cb) ?s2"
  have cb2: "core_bfd ?s2 = Some cb" using assms(1) by (simp add: init_thread_list_def)
  note w = thread_walk [OF cb2, of cb ?reg "bfd_sections cb"]
  have ip: "inferior_ptid ?s3 = thread_of_section cb (last ?M)" using w assms(2) by simp
  define M where "M = ?M"
  have "M \<noteq> []" using assms(2) by (simp add: M_def)
  then have "last M \<in> set M" by (rule last_in_set)
  then have "last M \<in> set (bfd_sections cb) \<and> reg_alias ?reg (last M)"
    unfolding M_def by (simp only: set_filter mem_Collect_eq)
  then have lm: "last ?M \<in> set (bfd_sections cb)" "startswith (sec_name (last ?M)) ''.reg/''"
    unfolding M_def by (simp_all only: reg_alias_def)
  then have th: "thread_of_section cb (last ?M) \<in> set (thread_list ?s3)" using w by blast
  have nn: "inferior_ptid ?s3 \<noteq> null_ptid" unfolding ip by (rule thread_of_section_not_null)
  have "core_open_threads cb s = ?s3"
    using nn by (simp add: core_open_threads_def bfd_map_over_sections_def Let_def)
  then show ?thesis using ip th w by simp
qed

lemma core_open_report_keeps:
  "inferior_ptid (core_open_report env cops cb s) = inferior_ptid s"
  "thread_list (core_open_report env cops cb s) = thread_list s"
  "core_bfd (core_open_report env cops cb s) = core_bfd s"
  "current_inferior (core_open_report env cops cb s) = current_inferior s"
  "other_inferiors (core_open_report env cops cb s) = other_inferiors s"
  by (simp_all add: core_open_report_def warn_def Let_def split: option.splits)

lemma core_open_finish_keeps:
  assumes "core_open_finish env cops cb s = (r, s')"
  shows "inferior_ptid s' = inferior_ptid s \<and> thread_list s' = thread_list s
       \<and> core_bfd s' = core_bfd s \<and> current_inferior s' = current_inferior s
       \<and> other_inferiors s' = other_inferiors s"
proof (cases "env_post_create_inferior_throws env")
  case True
  then have "s' = s" using assms by (simp add: core_open_finish_def)
  then show ?thesis by simp
next
  case False
  obtain ms effects where g: "get_core_registers cops cb (inferior_ptid s) = (ms, effects)"
    by (cases "get_core_registers cops cb (inferior_ptid s)")
  have "s' = warn ms (core_open_report env cops cb s)"
    using assms False g
    by (cases "find abnormal effects")
       (simp_all add: core_open_finish_def Let_def core_open_report_keeps)
  then show ?thesis by (simp add: warn_def core_open_report_keeps)
qed

lemma sniff_core_bfd_error:
  "sniff_core_bfd fns abfd arch = (Inl e, ms) \<Longrightarrow> e = UnrecognizedFormat (bfd_filename abfd) \<and> ms = []"
  by (auto simp: sniff_core_bfd_def split: if_splits prod.splits)

lemma core_open_success:
  assumes "core_open env arg s0 = (None, s')"
  shows "\<exists>temp cops s7. core_bfd s7 = Some temp
           \<and> core_open_finish env cops temp (core_open_threads temp s7) = (None, s')"
  using assms
  unfolding core_open_def core_open_install_def core_close_cleanup_def
  apply (auto simp: Let_def xmalloc_def warn_def push_target_def set_gdbarch_from_file_def
      split: option.splits prod.splits sum.splits if_splits)
  apply ((rule exI)+, rule conjI [rotated], assumption, simp)+
  done


lemma core_open_threads_core_bfd: "core_bfd (core_open_threads cb s) = core_bfd s"
proof -
  have f: "\<And>secs t. core_bfd (fold (\<lambda>a. add_to_thread_list cb a reg) secs t) = core_bfd t" for reg
  proof -
    fix secs t show "core_bfd (fold (\<lambda>a. add_to_thread_list cb a reg) secs t) = core_bfd t"
      by (induction secs arbitrary: t) simp_all
  qed
  show ?thesis
    by (simp add: core_open_threads_def bfd_map_over_sections_def Let_def f init_thread_list_def
        switch_to_thread_def add_thread_silent_def add_thread_def split: option.splits)
qed

text \<open>
  Claim C4.  After a successful \<^verbatim>\<open>core_open\<close> on a container that has a section
  named \<^verbatim>\<open>.reg\<close> (the one \<^verbatim>\<open>bfd_get_section_by_name\<close> finds) and at least one
  section \<^verbatim>\<open>.reg/<lwp>\<close> with the same file offset, the current thread
  \<^verbatim>\<open>inferior_ptid\<close> is the thread created from such a section, and that thread is in
  the thread list.  When several sections qualify, it is the last of them in the
  container's order.
\<close>

theorem core_open_current_thread:
  assumes "core_open env arg s0 = (None, s')" and "core_bfd s' = Some cb"
    and "bfd_get_section_by_name cb ''.reg'' = Some r"
    and "filter (\<lambda>a. startswith (sec_name a) ''.reg/'' \<and> sec_filepos a = sec_filepos r)
           (bfd_sections cb) \<noteq> []"
  shows "inferior_ptid s' =
           thread_of_section cb
             (last (filter (\<lambda>a. startswith (sec_name a) ''.reg/'' \<and> sec_filepos a = sec_filepos r)
                      (bfd_sections cb)))
       \<and> inferior_ptid s' \<in> set (thread_list s')"
proof -
  obtain temp cops s7 where s7: "core_bfd s7 = Some temp"
    and fin: "core_open_finish env cops temp (core_open_threads temp s7) = (None, s')"
    using core_open_success [OF assms(1)] by blast
  note k = core_open_finish_keeps [OF fin]
  have "core_bfd s' = Some temp" using k s7 by (simp add: core_open_threads_core_bfd)
  then have t: "temp = cb" using assms(2) by simp
  have ra: "reg_alias (bfd_get_section_by_name cb ''.reg'') =
            (\<lambda>a. startswith (sec_name a) ''.reg/'' \<and> sec_filepos a = sec_filepos r)"
    by (intro ext) (simp add: reg_alias_def assms(3))
  have ne: "filter (reg_alias (bfd_get_section_by_name cb ''.reg'')) (bfd_sections cb) \<noteq> []"
    unfolding ra by (rule assms(4))
  note c = core_open_threads_current [OF s7 [unfolded t] ne, unfolded ra]
  have i: "inferior_ptid s' = inferior_ptid (core_open_threads cb s7)"
    and tl: "thread_list s' = thread_list (core_open_threads cb s7)"
    using k unfolding t by simp_all
  show ?thesis unfolding i tl using c by blast
qed

text \<open>
  The scenario of the specification: no process id, sections \<^verbatim>\<open>.reg/17\<close> and
  \<^verbatim>\<open>.reg/18\<close>, and \<^verbatim>\<open>.reg\<close> at the file offset of \<^verbatim>\<open>.reg/18\<close>.
\<close>

lemma atoi_18: "atoi ''18'' = 18"
  by (simp add: atoi_def scan_int_def is_space_def is_digit_def clamp_long_def int_of_long_def)

text \<open>
  The fields of the example containers and sections, the two example architectures,
  and the section names of the threads 17 and 18.
\<close>

lemma example_bfd_fields:
  "bfd_handle (example_bfd secs pid arch) = 7"
  "bfd_filename (example_bfd secs pid arch) = ''/tmp/core''"
  "bfd_sections (example_bfd secs pid arch) = secs"
  "bfd_is_core (example_bfd secs pid arch) = True"
  "bfd_flavour (example_bfd secs pid arch) = 0"
  "bfd_big_endian (example_bfd secs pid arch) = True"
  "bfd_core_file_pid (example_bfd secs pid arch) = pid"
  "bfd_gdbarch (example_bfd secs pid arch) = arch"
  "bfd_contents (example_bfd secs pid arch) = zero_contents"
  "bfd_core_file_failing_command (example_bfd secs pid arch) = None"
  "bfd_core_file_failing_signal (example_bfd secs pid arch) = 0"
  by (simp_all add: example_bfd_def)

lemma example_section_fields:
  "sec_name (example_section name filepos sz) = name"
  "sec_filepos (example_section name filepos sz) = filepos"
  "sec_size (example_section name filepos sz) = sz"
  "sec_vma (example_section name filepos sz) = 0"
  by (simp_all add: example_section_def)

lemmas example_fields = example_bfd_fields example_section_fields

lemma example_gdbarch_iterator:
  "iterate_over_regset_sections_p example_gdbarch"
  "\<not> iterate_over_regset_sections_p example_legacy_gdbarch"
  by (simp_all add: iterate_over_regset_sections_p_def example_gdbarch_def
      example_legacy_gdbarch_def)

lemma printf_ld_examples: "printf_ld 17 = ''17''" "printf_ld 18 = ''18''"
  by (simp_all add: printf_ld_def dec_digits.simps [of 17] dec_digits.simps [of 18]
      dec_digits.simps [of "Suc 0"])

lemmas fetch_defs = get_core_registers_def get_core_registers_cb_def get_core_register_section_def
  register_section_name_def abnormal_def abnormal_end_def iterate_over_regset_sections_p_def
  example_gdbarch_def example_legacy_gdbarch_def ULONGEST_of_def printf_ld_examples

text \<open>
  The register fetch of line 480 on the current thread \<open>(1, 18, 0)\<close>, through the
  iterator of the example architecture: the section \<^verbatim>\<open>.reg/18\<close> is handed to its
  register set, and \<^verbatim>\<open>.reg2/18\<close>, which is optional, is absent.
\<close>

lemma example_fetch_iterator:
  "get_core_registers
     \<lparr>cops_addr = 1, core_vec = None, core_gdbarch = Some example_gdbarch,
       core_data_addr = Some 2, core_data = []\<rparr>
     (example_bfd [example_section ''.reg/17'' 100 16,
        example_section ''.reg/18'' 200 16, example_section ''.reg'' 200 16] 0
        (Some example_gdbarch))
     (ptid_build 1 18 0) =
   ([], [SuppliedByRegset \<lparr>regset_variable_size = False\<rparr> (replicate 16 0) 16, NothingSupplied])"
  by (simp add: fetch_defs example_fields bfd_get_section_by_name_def ptid_build_def
      zero_contents_def)

lemma example_open_aliased:
  "fst (core_open
     (example_env (Some (example_bfd [example_section ''.reg/17'' 100 16,
        example_section ''.reg/18'' 200 16, example_section ''.reg'' 200 16] 0
        (Some example_gdbarch))))
     (Some ''core'') example_state) = None"
  "core_bfd (snd (core_open
     (example_env (Some (example_bfd [example_section ''.reg/17'' 100 16,
        example_section ''.reg/18'' 200 16, example_section ''.reg'' 200 16] 0
        (Some example_gdbarch))))
     (Some ''core'') example_state)) =
   Some (example_bfd [example_section ''.reg/17'' 100 16,
        example_section ''.reg/18'' 200 16, example_section ''.reg'' 200 16] 0
        (Some example_gdbarch))"
  apply (simp_all add: core_open_def core_open_install_def example_fields example_env_def
      example_state_def example_handler_def Let_def IS_ABSOLUTE_PATH_def gdb_bfd_ref_def
      unpush_target_core_ops_def xmalloc_def fresh_block_def sniff_core_bfd_def warn_def
      push_target_def example_gdbarch_iterator)
  apply (simp_all add: core_open_threads_def init_thread_list_def bfd_map_over_sections_def
      example_fields bfd_get_section_by_name_def null_ptid_def)
  apply (simp_all add: add_to_thread_list_def startswith_def example_fields atoi_17 atoi_18 Let_def
      add_thread_def add_thread_silent_def inferior_appeared_def first_thread_of_process_def
      switch_to_thread_def ptid_build_def pid_to_ptid_def CORELOW_PID_def null_ptid_def)
  apply (simp_all add: core_open_finish_def core_open_report_def example_fields Let_def)
  apply (simp_all add: fetch_defs example_fields bfd_get_section_by_name_def zero_contents_def
      warn_def)
  done

theorem core_open_current_thread_witness:
  "fst (core_open
     (example_env (Some (example_bfd [example_section ''.reg/17'' 100 16,
        example_section ''.reg/18'' 200 16, example_section ''.reg'' 200 16] 0
        (Some example_gdbarch))))
     (Some ''core'') example_state) = None
   \<and> inferior_ptid (snd (core_open
     (example_env (Some (example_bfd [example_section ''.reg/17'' 100 16,
        example_section ''.reg/18'' 200 16, example_section ''.reg'' 200 16] 0
        (Some example_gdbarch))))
     (Some ''core'') example_state)) = ptid_build 1 18 0"
proof -
  let ?B = "example_bfd [example_section ''.reg/17'' 100 16,
        example_section ''.reg/18'' 200 16, example_section ''.reg'' 200 16] 0
        (Some example_gdbarch)"
  let ?r = "core_open (example_env (Some ?B)) (Some ''core'') example_state"
  have o: "?r = (None, snd ?r)"
    using example_open_aliased(1) by (simp add: prod_eq_iff)
  have reg: "bfd_get_section_by_name ?B ''.reg'' = Some (example_section ''.reg'' 200 16)"
    by (simp add: bfd_get_section_by_name_def example_bfd_def example_section_def)
  have m: "filter (\<lambda>a. startswith (sec_name a) ''.reg/''
                       \<and> sec_filepos a = sec_filepos (example_section ''.reg'' 200 16))
             (bfd_sections ?B) = [example_section ''.reg/18'' 200 16]"
    by (simp add: example_bfd_def example_section_def startswith_def)
  have ne: "filter (\<lambda>a. startswith (sec_name a) ''.reg/''
                       \<and> sec_filepos a = sec_filepos (example_section ''.reg'' 200 16))
             (bfd_sections ?B) \<noteq> []"
    unfolding m by simp
  have t: "thread_of_section ?B (example_section ''.reg/18'' 200 16) = ptid_build 1 18 0"
    by (simp add: thread_of_section_def core_pid_def example_bfd_def example_section_def
        CORELOW_PID_def atoi_18)
  note c = core_open_current_thread [OF o example_open_aliased(2) reg ne, unfolded m]
  show ?thesis using c example_open_aliased(1) by (simp add: t)
qed


subsection \<open>Failure of an open before the push\<close>

lemma fold_max_ge: "a \<le> fold max l a \<and> (\<forall>x\<in>set l. x \<le> fold max l (a::nat))"
proof (induction l arbitrary: a)
  case Nil
  show ?case by simp
next
  case (Cons y l)
  have "max y a \<le> fold max l (max y a)" using Cons [of "max y a"] by blast
  then show ?case using Cons [of "max y a"] by auto
qed

lemma fresh_block_fresh: "fresh_block l \<notin> set l"
  using fold_max_ge [of 0 l] by (auto simp: fresh_block_def)

lemma exit_first_pids: "inf_pid ` set (exit_first pid l) \<subseteq> insert 0 (inf_pid ` set l)"
  by (induction l) auto

lemma exit_inferior_silent_fields:
  "target_stack (exit_inferior_silent pid s) = target_stack s"
  "core_bfd (exit_inferior_silent pid s) = core_bfd s"
  "bfd_refcount (exit_inferior_silent pid s) = bfd_refcount s"
  "live_blocks (exit_inferior_silent pid s) = live_blocks s"
  "set (thread_list (exit_inferior_silent pid s)) \<subseteq> set (thread_list s)"
  "live_pids (exit_inferior_silent pid s) \<subseteq> live_pids s"
  using exit_first_pids [of pid "other_inferiors s"]
  by (auto simp: exit_inferior_silent_def live_pids_def)

lemma core_xclose_fields:
  "target_stack (core_xclose c s) = target_stack s"
  "set (thread_list (core_xclose c s)) \<subseteq> set (thread_list s)"
  "live_pids (core_xclose c s) \<subseteq> live_pids s"
  "live_blocks (core_xclose c s) =
     removeAll (cops_addr c)
       (case core_data_addr c of None \<Rightarrow> live_blocks s | Some a \<Rightarrow> removeAll a (live_blocks s))"
  "bfd_refcount (core_xclose c s) =
     (case core_bfd s of
        None \<Rightarrow> bfd_refcount s
      | Some cb \<Rightarrow> (bfd_refcount s)(bfd_handle cb := bfd_refcount s (bfd_handle cb) - 1))"
  "core_bfd (core_xclose c s) = None"
proof -
  let ?p = "ptid_pid (inferior_ptid s)"
  let ?s2 = "s\<lparr>inferior_ptid := null_ptid\<rparr>"
  have e: "set (thread_list (exit_inferior_silent ?p ?s2)) \<subseteq> set (thread_list s)"
      "live_pids (exit_inferior_silent ?p ?s2) \<subseteq> live_pids s"
    using exit_inferior_silent_fields(5,6) [of ?p ?s2] by (simp_all add: live_pids_def)
  show "target_stack (core_xclose c s) = target_stack s"
    by (simp add: core_xclose_def Let_def xfree_def clear_solib_def gdb_bfd_unref_def
        exit_inferior_silent_fields split: option.splits)
  show "set (thread_list (core_xclose c s)) \<subseteq> set (thread_list s)"
    using e(1)
    by (simp add: core_xclose_def Let_def xfree_def clear_solib_def gdb_bfd_unref_def
        split: option.splits)
  show "live_pids (core_xclose c s) \<subseteq> live_pids s"
    using e(2)
    by (simp add: core_xclose_def Let_def xfree_def clear_solib_def gdb_bfd_unref_def
        live_pids_def split: option.splits)
  show "live_blocks (core_xclose c s) =
     removeAll (cops_addr c)
       (case core_data_addr c of None \<Rightarrow> live_blocks s | Some a \<Rightarrow> removeAll a (live_blocks s))"
    by (simp add: core_xclose_def Let_def xfree_def clear_solib_def gdb_bfd_unref_def
        exit_inferior_silent_fields split: option.splits)
  show "bfd_refcount (core_xclose c s) =
     (case core_bfd s of
        None \<Rightarrow> bfd_refcount s
      | Some cb \<Rightarrow> (bfd_refcount s)(bfd_handle cb := bfd_refcount s (bfd_handle cb) - 1))"
    by (simp add: core_xclose_def Let_def xfree_def clear_solib_def gdb_bfd_unref_def
        exit_inferior_silent_fields split: option.splits)
  show "core_bfd (core_xclose c s) = None"
    by (simp add: core_xclose_def Let_def xfree_def clear_solib_def gdb_bfd_unref_def
        exit_inferior_silent_fields split: option.splits)
qed


lemma unpush_exact:
  "target_stack (unpush_target_core_ops s) =
     (case find_core_target (target_stack s) of
        None \<Rightarrow> target_stack s
      | Some c \<Rightarrow> remove1 (Core_target c) (target_stack s))"
  "live_blocks (unpush_target_core_ops s) =
     (case find_core_target (target_stack s) of
        None \<Rightarrow> live_blocks s
      | Some c \<Rightarrow>
          removeAll (cops_addr c)
            (case core_data_addr c of None \<Rightarrow> live_blocks s
             | Some a \<Rightarrow> removeAll a (live_blocks s)))"
  "bfd_refcount (unpush_target_core_ops s) =
     (case find_core_target (target_stack s) of
        None \<Rightarrow> bfd_refcount s
      | Some c \<Rightarrow>
          (case core_bfd s of
             None \<Rightarrow> bfd_refcount s
           | Some cb \<Rightarrow> (bfd_refcount s)(bfd_handle cb := bfd_refcount s (bfd_handle cb) - 1)))"
  by (simp_all add: unpush_target_core_ops_def core_xclose_fields split: option.splits)

lemma unpush_after_ref:
  "target_stack (unpush_target_core_ops (gdb_bfd_ref b s)) = target_stack (unpush_target_core_ops s)"
  "live_blocks (unpush_target_core_ops (gdb_bfd_ref b s)) = live_blocks (unpush_target_core_ops s)"
  "(bfd_refcount (unpush_target_core_ops (gdb_bfd_ref b s)))
     (bfd_handle b := bfd_refcount (unpush_target_core_ops (gdb_bfd_ref b s)) (bfd_handle b) - 1)
   = bfd_refcount (unpush_target_core_ops s)"
  unfolding unpush_exact
  by (auto simp: gdb_bfd_ref_def fun_eq_iff split: option.splits)

lemma unpush_fields:
  "set (target_stack (unpush_target_core_ops s)) \<subseteq> set (target_stack s)"
  "set (thread_list (unpush_target_core_ops s)) \<subseteq> set (thread_list s)"
  "live_pids (unpush_target_core_ops s) \<subseteq> live_pids s"
proof -
  show "set (target_stack (unpush_target_core_ops s)) \<subseteq> set (target_stack s)"
  proof (cases "find_core_target (target_stack s)")
    case None
    then show ?thesis by (simp add: unpush_target_core_ops_def)
  next
    case (Some c)
    then show ?thesis
      using set_remove1_subset [of "Core_target c" "target_stack s"]
      by (simp add: unpush_target_core_ops_def core_xclose_fields)
  qed
  show "set (thread_list (unpush_target_core_ops s)) \<subseteq> set (thread_list s)"
    using core_xclose_fields(2)
    by (fastforce simp: unpush_target_core_ops_def split: option.splits)
  show "live_pids (unpush_target_core_ops s) \<subseteq> live_pids s"
  proof (cases "find_core_target (target_stack s)")
    case None
    then show ?thesis by (simp add: unpush_target_core_ops_def)
  next
    case (Some c)
    have "live_pids (s\<lparr>target_stack := remove1 (Core_target c) (target_stack s)\<rparr>) = live_pids s"
      by (simp add: live_pids_def)
    then show ?thesis
      using core_xclose_fields(3) [of c "s\<lparr>target_stack := remove1 (Core_target c) (target_stack s)\<rparr>"]
      by (simp add: unpush_target_core_ops_def Some)
  qed
qed


lemma unpush_after_ref_subsets:
  "set (thread_list (unpush_target_core_ops (gdb_bfd_ref b s))) \<subseteq> set (thread_list s)"
  "live_pids (unpush_target_core_ops (gdb_bfd_ref b s)) \<subseteq> live_pids s"
  using unpush_fields(2,3) [of "gdb_bfd_ref b s"]
  by (simp_all add: gdb_bfd_ref_def live_pids_def)

lemma removeAll_fresh: "removeAll (fresh_block l) (fresh_block l # l) = l"
  using fresh_block_fresh [of l] by simp

lemma removeAll_fresh2:
  "removeAll (fresh_block l) (removeAll (fresh_block (fresh_block l # l))
     (fresh_block (fresh_block l # l) # fresh_block l # l)) = l"
proof -
  have "fresh_block (fresh_block l # l) \<notin> set (fresh_block l # l)" by (rule fresh_block_fresh)
  then have "removeAll (fresh_block (fresh_block l # l))
     (fresh_block (fresh_block l # l) # fresh_block l # l) = fresh_block l # l"
    by simp
  then show ?thesis by (simp only: removeAll_fresh)
qed

lemma cleanup_fields:
  assumes "core_bfd X = Some temp" and "target_stack X = target_stack u"
    and "bfd_refcount X = bfd_refcount u" and "thread_list X = thread_list u"
    and "current_inferior X = current_inferior u" and "other_inferiors X = other_inferiors u"
    and "removeAll (cops_addr c)
           (case core_data_addr c of None \<Rightarrow> live_blocks X
            | Some t \<Rightarrow> removeAll t (live_blocks X)) = live_blocks u"
  shows "target_stack (core_close_cleanup c X) = target_stack u
       \<and> core_bfd (core_close_cleanup c X) = None
       \<and> bfd_refcount (core_close_cleanup c X) =
           (bfd_refcount u)(bfd_handle temp := bfd_refcount u (bfd_handle temp) - 1)
       \<and> live_blocks (core_close_cleanup c X) = live_blocks u
       \<and> set (thread_list (core_close_cleanup c X)) \<subseteq> set (thread_list u)
       \<and> live_pids (core_close_cleanup c X) \<subseteq> live_pids u"
proof -
  have lp: "live_pids X = live_pids u" using assms(5,6) by (simp add: live_pids_def)
  show ?thesis
    unfolding core_close_cleanup_def
    using core_xclose_fields [of c X] assms(1-4,7) lp by simp
qed

lemma core_open_finish_error:
  "core_open_finish env cops cb s = (Some e, s') \<Longrightarrow>
   e = PostCreateFailed \<or> e = NullPointerUsed \<or> e = InternalError"
  by (auto simp: core_open_finish_def Let_def abnormal_end_def
      split: if_splits prod.splits option.splits)

lemma core_open_install_failure:
  assumes "core_open_install env temp s1 = (Some e, s')"
    and "e = UnrecognizedFormat f \<or> e = SectionTableError f"
  shows "target_stack s' = target_stack (unpush_target_core_ops s1)
       \<and> core_bfd s' = None
       \<and> bfd_refcount s' =
           (bfd_refcount (unpush_target_core_ops s1))
             (bfd_handle temp := bfd_refcount (unpush_target_core_ops s1) (bfd_handle temp) - 1)
       \<and> live_blocks s' = live_blocks (unpush_target_core_ops s1)
       \<and> set (thread_list s') \<subseteq> set (thread_list (unpush_target_core_ops s1))
       \<and> live_pids s' \<subseteq> live_pids (unpush_target_core_ops s1)"
proof -
  define u where "u = unpush_target_core_ops s1"
  define a where "a = fresh_block (live_blocks u)"
  define s3 where "s3 = u\<lparr>core_bfd := Some temp, live_blocks := a # live_blocks u\<rparr>"
  define cops0 where "cops0 = \<lparr>cops_addr = a, core_vec = None, core_gdbarch = bfd_gdbarch temp,
                  core_data_addr = None, core_data = []\<rparr>"
  obtain r ms where sn: "sniff_core_bfd (core_file_fns u) temp (bfd_gdbarch temp) = (r, ms)"
    by (cases "sniff_core_bfd (core_file_fns u) temp (bfd_gdbarch temp)") auto
  have unf: "core_open_install env temp s1 =
      (case (r, ms) of
         (Inl e, ms) \<Rightarrow> (Some e, core_close_cleanup cops0 (warn ms s3))
       | (Inr vec, ms) \<Rightarrow>
           (case env_build_section_table env temp of
              (failed, table) \<Rightarrow>
                let (cops2, s5) =
                      (case table of
                         None \<Rightarrow> (cops0\<lparr>core_vec := vec\<rparr>, warn ms s3)
                       | Some entries \<Rightarrow>
                           (case xmalloc (warn ms s3) of
                              (t, s') \<Rightarrow>
                                (cops0\<lparr>core_vec := vec, core_data_addr := Some t,
                                       core_data := entries\<rparr>, s')))
                in if failed
                   then (Some (SectionTableError (bfd_filename temp)), core_close_cleanup cops2 s5)
                   else
                     let s6 = (if \<not> exec_bfd_loaded s5 then set_gdbarch_from_file temp s5 else s5);
                         s7 = push_target (Core_target cops2) s6
                     in core_open_finish env cops2 temp (core_open_threads temp s7)))"
    unfolding core_open_install_def
    by (cases r; cases "env_build_section_table env temp"; cases "snd (env_build_section_table env temp)")
       (simp_all add: Let_def xmalloc_def u_def [symmetric] a_def s3_def cops0_def sn warn_def)
  show ?thesis
  proof (cases r)
    case (Inl e0)
    then have s': "s' = core_close_cleanup cops0 (warn ms s3)"
      using assms(1) unfolding unf by simp
    have "removeAll (cops_addr cops0)
           (case core_data_addr cops0 of None \<Rightarrow> live_blocks (warn ms s3)
            | Some t \<Rightarrow> removeAll t (live_blocks (warn ms s3))) = live_blocks u"
      by (simp add: cops0_def warn_def s3_def a_def removeAll_fresh del: removeAll.simps)
    then show ?thesis
      unfolding s' u_def [symmetric]
      by (intro cleanup_fields) (simp_all add: warn_def s3_def)
  next
    case (Inr vec)
    obtain failed table where bt: "env_build_section_table env temp = (failed, table)"
      by (cases "env_build_section_table env temp") auto
    show ?thesis
    proof (cases failed)
      case False
      then have "\<exists>c s7. core_open_finish env c temp (core_open_threads temp s7) = (Some e, s')"
        using assms(1) unfolding unf Inr
        by (auto simp: bt Let_def split: option.splits prod.splits)
      then have "e = PostCreateFailed \<or> e = NullPointerUsed \<or> e = InternalError"
        using core_open_finish_error by blast
      then show ?thesis using assms(2) by auto
    next
      case True
      show ?thesis
      proof (cases table)
        case None
        then have s': "s' = core_close_cleanup (cops0\<lparr>core_vec := vec\<rparr>) (warn ms s3)"
          using assms(1) True unfolding unf Inr by (simp add: bt)
        have "removeAll (cops_addr (cops0\<lparr>core_vec := vec\<rparr>))
           (case core_data_addr (cops0\<lparr>core_vec := vec\<rparr>) of None \<Rightarrow> live_blocks (warn ms s3)
            | Some t \<Rightarrow> removeAll t (live_blocks (warn ms s3))) = live_blocks u"
          by (simp add: cops0_def warn_def s3_def a_def removeAll_fresh del: removeAll.simps)
        then show ?thesis
          unfolding s' u_def [symmetric]
          by (intro cleanup_fields) (simp_all add: warn_def s3_def)
      next
        case (Some entries)
        define t where "t = fresh_block (a # live_blocks u)"
        define s5 where "s5 = (warn ms s3)\<lparr>live_blocks := t # a # live_blocks u\<rparr>"
        have xm: "xmalloc (warn ms s3) = (t, s5)"
          by (simp add: xmalloc_def warn_def s3_def t_def s5_def)
        have s': "s' = core_close_cleanup
                    (cops0\<lparr>core_vec := vec, core_data_addr := Some t, core_data := entries\<rparr>) s5"
          using assms(1) True unfolding unf Inr by (simp add: bt Some xm)
        have "removeAll (cops_addr (cops0\<lparr>core_vec := vec, core_data_addr := Some t,
                                        core_data := entries\<rparr>))
           (case core_data_addr (cops0\<lparr>core_vec := vec, core_data_addr := Some t,
                                        core_data := entries\<rparr>) of
              None \<Rightarrow> live_blocks s5
            | Some t \<Rightarrow> removeAll t (live_blocks s5)) = live_blocks u"
          using removeAll_fresh2 [of "live_blocks u"]
          by (simp add: cops0_def s5_def t_def a_def del: removeAll.simps)
        then show ?thesis
          unfolding s' u_def [symmetric]
          by (intro cleanup_fields) (simp_all add: warn_def s3_def s5_def)
      qed
    qed
  qed
qed


lemma core_open_install_error_kind:
  assumes "core_open_install env temp s1 = (Some e, s')"
  shows "e \<noteq> NotACore f"
proof -
  obtain r ms where sn: "sniff_core_bfd (core_file_fns (unpush_target_core_ops s1)) temp
      (bfd_gdbarch temp) = (r, ms)"
    by (cases "sniff_core_bfd (core_file_fns (unpush_target_core_ops s1)) temp (bfd_gdbarch temp)")
      auto
  show ?thesis
  proof (cases r)
    case (Inl e0)
    then have "e0 = UnrecognizedFormat (bfd_filename temp)"
      using sniff_core_bfd_error sn by blast
    moreover have "e = e0"
      using assms unfolding core_open_install_def
      by (simp add: Let_def xmalloc_def sn Inl)
    ultimately show ?thesis by simp
  next
    case (Inr vec)
    obtain failed table where bt: "env_build_section_table env temp = (failed, table)"
      by (cases "env_build_section_table env temp") auto
    show ?thesis
    proof (cases failed)
      case True
      then have "e = SectionTableError (bfd_filename temp)"
        using assms unfolding core_open_install_def
        by (cases table) (simp_all add: Let_def xmalloc_def sn Inr bt)
      then show ?thesis by simp
    next
      case False
      then have "\<exists>c s7. core_open_finish env c temp (core_open_threads temp s7) = (Some e, s')"
        using assms unfolding core_open_install_def
        by (cases table) (auto simp: Let_def xmalloc_def sn Inr bt)
      then have "e = PostCreateFailed \<or> e = NullPointerUsed \<or> e = InternalError"
        using core_open_finish_error by blast
      then show ?thesis by auto
    qed
  qed
qed

lemma ref_unref: "gdb_bfd_unref b (gdb_bfd_ref b s) = s"
  by (simp add: gdb_bfd_unref_def gdb_bfd_ref_def)

text \<open>
  Claim C1.  Let \<^verbatim>\<open>core_open\<close> fail with one of the three errors thrown before
  \<^verbatim>\<open>push_target\<close>: the container is not a core and no handler's format check
  accepts it, no handler sniffs it, or the section table cannot be built; let \<open>s\<close>
  be the state \<^verbatim>\<open>target_preopen\<close> left.  Then no state of this open remains.  When
  the container is not a core, the state is \<open>s\<close> itself.  In the other two cases, which
  come after the old core file has been tossed, the target stack, the reference
  counts of all containers and the allocated blocks are those of \<open>s\<close> with the old
  session popped: the new session is not on the stack, the reference
  \<^verbatim>\<open>gdb_bfd_fopen\<close> took is released, and the session data and the section table
  built so far are freed; \<^verbatim>\<open>core_bfd\<close> is null.  In all three cases every target on
  the stack, every thread and every inferior with a process id was there in \<open>s\<close>.
\<close>

theorem core_open_failure_before_push:
  assumes "core_open env arg s0 = (Some e, s')"
    and "e = NotACore f \<or> e = UnrecognizedFormat f \<or> e = SectionTableError f"
    and "env_target_preopen env s0 = Some s"
  shows "(e = NotACore f \<longrightarrow> s' = s)
       \<and> (e \<noteq> NotACore f \<longrightarrow>
            target_stack s' = target_stack (unpush_target_core_ops s)
          \<and> core_bfd s' = None
          \<and> bfd_refcount s' = bfd_refcount (unpush_target_core_ops s)
          \<and> live_blocks s' = live_blocks (unpush_target_core_ops s))
       \<and> set (target_stack s') \<subseteq> set (target_stack s)
       \<and> set (thread_list s') \<subseteq> set (thread_list s)
       \<and> live_pids s' \<subseteq> live_pids s"
proof -
  obtain a where arg: "arg = Some a"
    using assms by (cases arg) (auto simp: core_open_def)
  define filename where "filename =
    (if \<not> IS_ABSOLUTE_PATH (env_tilde_expand env a)
     then env_current_directory env @ ''/'' @ env_tilde_expand env a
     else env_tilde_expand env a)"
  obtain temp where fo: "env_fopen env filename (env_write_files env) = Some temp"
    using assms unfolding core_open_def arg
    by (cases "env_fopen env filename (env_write_files env)")
       (auto simp: Let_def filename_def)
  have unf: "core_open env arg s0 =
      (if \<not> bfd_is_core temp \<and> \<not> gdb_check_format (core_file_fns (gdb_bfd_ref temp s)) temp
       then (Some (NotACore filename), gdb_bfd_unref temp (gdb_bfd_ref temp s))
       else core_open_install env temp (gdb_bfd_ref temp s))"
    unfolding core_open_def arg
    using fo by (simp add: assms(3) Let_def filename_def)
  show ?thesis
  proof (cases "\<not> bfd_is_core temp \<and> \<not> gdb_check_format (core_file_fns (gdb_bfd_ref temp s)) temp")
    case True
    then have "e = NotACore filename" and "s' = s"
      using assms(1) unfolding unf by (simp_all add: ref_unref)
    then show ?thesis using assms(2) by auto
  next
    case False
    have inst: "core_open_install env temp (gdb_bfd_ref temp s) = (Some e, s')"
      using assms(1) unfolding unf if_not_P [OF False] .
    have ne: "e \<noteq> NotACore f" using core_open_install_error_kind [OF inst] .
    then have k: "e = UnrecognizedFormat f \<or> e = SectionTableError f" using assms(2) by blast
    note i = core_open_install_failure [OF inst k]
    have 1: "target_stack s' = target_stack (unpush_target_core_ops s)"
      using i unpush_after_ref(1) by simp
    have 2: "core_bfd s' = None" using i by simp
    have 3: "bfd_refcount s' = bfd_refcount (unpush_target_core_ops s)"
      using i unpush_after_ref(3) [of temp s] by simp
    have 4: "live_blocks s' = live_blocks (unpush_target_core_ops s)"
      using i unpush_after_ref(2) by simp
    have 5: "set (target_stack s') \<subseteq> set (target_stack s)"
      unfolding 1 by (rule unpush_fields(1))
    have 6: "set (thread_list s') \<subseteq> set (thread_list s)"
      using i unpush_after_ref_subsets(1) [of temp s] by blast
    have 7: "live_pids s' \<subseteq> live_pids s"
      using i unpush_after_ref_subsets(2) [of temp s] by blast
    show ?thesis using ne 1 2 3 4 5 6 7 by simp
  qed
qed


text \<open>
  A file that is not a core, and a core that no handler sniffs, opened in a state
  with no session.
\<close>

lemmas example_open_defs = open_defs example_defs example_env_def example_state_def
  example_handler_def default_check_format_def Let_def

lemma example_open_not_a_core:
  "fst (core_open (example_env (Some ((example_bfd [] 0 None)\<lparr>bfd_is_core := False\<rparr>)))
     (Some ''core'') example_state) = Some (NotACore ''/tmp/core'')"
  by (simp add: example_open_defs)

lemma example_open_unrecognized:
  "fst (core_open
     (example_env (Some ((example_bfd [example_section ''.reg'' 100 16] 0 None)\<lparr>bfd_flavour := 5\<rparr>)))
     (Some ''core'') example_state) = Some (UnrecognizedFormat ''/tmp/core'')"
  by (simp add: example_open_defs)

lemma example_unpush: "unpush_target_core_ops example_state = example_state"
  by (simp add: unpush_target_core_ops_def example_state_def)

theorem core_open_failure_before_push_witness:
  "core_open (example_env (Some ((example_bfd [] 0 None)\<lparr>bfd_is_core := False\<rparr>)))
     (Some ''core'') example_state = (Some (NotACore ''/tmp/core''), example_state)
   \<and> fst (core_open
     (example_env (Some ((example_bfd [example_section ''.reg'' 100 16] 0 None)\<lparr>bfd_flavour := 5\<rparr>)))
     (Some ''core'') example_state) = Some (UnrecognizedFormat ''/tmp/core'')
   \<and> target_stack (snd (core_open
     (example_env (Some ((example_bfd [example_section ''.reg'' 100 16] 0 None)\<lparr>bfd_flavour := 5\<rparr>)))
     (Some ''core'') example_state)) = [Other_target ''exec'']
   \<and> live_blocks (snd (core_open
     (example_env (Some ((example_bfd [example_section ''.reg'' 100 16] 0 None)\<lparr>bfd_flavour := 5\<rparr>)))
     (Some ''core'') example_state)) = []
   \<and> bfd_refcount (snd (core_open
     (example_env (Some ((example_bfd [example_section ''.reg'' 100 16] 0 None)\<lparr>bfd_flavour := 5\<rparr>)))
     (Some ''core'') example_state)) 7 = 0
   \<and> thread_list (snd (core_open
     (example_env (Some ((example_bfd [example_section ''.reg'' 100 16] 0 None)\<lparr>bfd_flavour := 5\<rparr>)))
     (Some ''core'') example_state)) = []"
proof -
  let ?r1 = "core_open (example_env (Some ((example_bfd [] 0 None)\<lparr>bfd_is_core := False\<rparr>)))
     (Some ''core'') example_state"
  let ?r2 = "core_open
     (example_env (Some ((example_bfd [example_section ''.reg'' 100 16] 0 None)\<lparr>bfd_flavour := 5\<rparr>)))
     (Some ''core'') example_state"
  have pre: "\<And>file. env_target_preopen (example_env file) example_state = Some example_state"
    by (simp add: example_env_def)
  have o1: "?r1 = (Some (NotACore ''/tmp/core''), snd ?r1)"
    using example_open_not_a_core by (simp add: prod_eq_iff)
  have o2: "?r2 = (Some (UnrecognizedFormat ''/tmp/core''), snd ?r2)"
    using example_open_unrecognized by (simp add: prod_eq_iff)
  have k1: "NotACore ''/tmp/core'' = NotACore ''/tmp/core''
            \<or> NotACore ''/tmp/core'' = UnrecognizedFormat ''/tmp/core''
            \<or> NotACore ''/tmp/core'' = SectionTableError ''/tmp/core''" by simp
  have k2: "UnrecognizedFormat ''/tmp/core'' = NotACore ''/tmp/core''
            \<or> UnrecognizedFormat ''/tmp/core'' = UnrecognizedFormat ''/tmp/core''
            \<or> UnrecognizedFormat ''/tmp/core'' = SectionTableError ''/tmp/core''" by simp
  note t1 = core_open_failure_before_push [OF o1 k1 pre]
  note t2 = core_open_failure_before_push [OF o2 k2 pre]
  have a: "snd ?r1 = example_state" using t1 by simp
  have b: "target_stack (snd ?r2) = target_stack example_state"
      "live_blocks (snd ?r2) = live_blocks example_state"
      "bfd_refcount (snd ?r2) = bfd_refcount example_state"
      "set (thread_list (snd ?r2)) \<subseteq> set (thread_list example_state)"
    using t2 by (simp_all add: example_unpush)
  have c: "target_stack example_state = [Other_target ''exec'']" "live_blocks example_state = []"
      "bfd_refcount example_state 7 = 0" "thread_list example_state = []"
    by (simp_all add: example_state_def)
  show ?thesis
    using o1 a example_open_unrecognized b c by simp
qed

text \<open>
  The same failing open in a state that holds an earlier session: line 359 has
  popped and closed that session before the sniffer fails, so it is gone afterwards,
  with its thread, its inferior's process id, its container reference and its
  session data.
\<close>

lemma example_open_unrecognized_old_session:
  "core_open
     (example_env (Some ((example_bfd [example_section ''.reg'' 100 16] 0 None)\<lparr>bfd_flavour := 5\<rparr>)))
     (Some ''core'')
     (example_state
        \<lparr>target_stack := [Core_target example_cops, Other_target ''exec''],
         core_bfd := Some ((example_bfd [] 4321 None)\<lparr>bfd_handle := 3\<rparr>),
         bfd_refcount := (\<lambda>h. if h = 3 then 1 else 0),
         live_blocks := [1],
         inferior_ptid := ptid_build 4321 0 0,
         current_inferior := \<lparr>inf_pid = 4321, inf_fake_pid_p = False\<rparr>,
         thread_list := [ptid_build 4321 0 0]\<rparr>) =
   (Some (UnrecognizedFormat ''/tmp/core''), example_state)"
  by (simp add: example_open_defs fun_eq_iff)


subsection \<open>The register fetch at the end of an open\<close>

text \<open>
  A container with a \<^verbatim>\<open>.reg\<close> section of 16 bytes whose architecture has no
  iterator is taken by the registered handler, which has a decoder.  The open gets
  as far as line 480; \<^verbatim>\<open>get_core_registers\<close> makes the call of line 658, which reads
  \<^verbatim>\<open>regset->flags\<close> through the null pointer, and the open ends there, after the
  session was pushed and the inferior and its thread were made up.
\<close>

lemma example_open_legacy_decoder:
  "fst (core_open
     (example_env (Some (example_bfd [example_section ''.reg'' 100 16] 0
        (Some example_legacy_gdbarch))))
     (Some ''core'') example_state) = Some NullPointerUsed"
  "thread_list (snd (core_open
     (example_env (Some (example_bfd [example_section ''.reg'' 100 16] 0
        (Some example_legacy_gdbarch))))
     (Some ''core'') example_state)) = [ptid_build 1 0 0]"
  apply (simp_all add: core_open_def core_open_install_def example_fields example_env_def
      example_state_def example_handler_def Let_def IS_ABSOLUTE_PATH_def gdb_bfd_ref_def
      unpush_target_core_ops_def xmalloc_def fresh_block_def sniff_core_bfd_def warn_def
      push_target_def example_gdbarch_iterator)
  apply (simp_all add: core_open_threads_def init_thread_list_def bfd_map_over_sections_def
      example_fields bfd_get_section_by_name_def null_ptid_def)
  apply (simp_all add: add_to_thread_list_def startswith_def example_fields atoi_17 atoi_18 Let_def
      add_thread_def add_thread_silent_def inferior_appeared_def first_thread_of_process_def
      switch_to_thread_def ptid_build_def pid_to_ptid_def CORELOW_PID_def null_ptid_def)
  apply (simp_all add: core_open_finish_def core_open_report_def example_fields Let_def)
  apply (simp_all add: fetch_defs example_fields bfd_get_section_by_name_def zero_contents_def
      warn_def)
  done

text \<open>
  With a handler that has no decoder the fetch only reports that it cannot read the
  registers, and the open completes.
\<close>

lemma example_open_no_decoder:
  "fst (core_open
     (example_env (Some (example_bfd [example_section ''.reg'' 100 16] 0
        (Some example_legacy_gdbarch))))
     (Some ''core'')
     (example_state\<lparr>core_file_fns := [example_handler\<lparr>core_read_registers := False\<rparr>]\<rparr>)) = None"
  "messages (snd (core_open
     (example_env (Some (example_bfd [example_section ''.reg'' 100 16] 0
        (Some example_legacy_gdbarch))))
     (Some ''core'')
     (example_state\<lparr>core_file_fns := [example_handler\<lparr>core_read_registers := False\<rparr>]\<rparr>))) =
   [CantFetchRegisters]"
  apply (simp_all add: core_open_def core_open_install_def example_fields example_env_def
      example_state_def example_handler_def Let_def IS_ABSOLUTE_PATH_def gdb_bfd_ref_def
      unpush_target_core_ops_def xmalloc_def fresh_block_def sniff_core_bfd_def warn_def
      push_target_def example_gdbarch_iterator)
  apply (simp_all add: core_open_threads_def init_thread_list_def bfd_map_over_sections_def
      example_fields bfd_get_section_by_name_def null_ptid_def)
  apply (simp_all add: add_to_thread_list_def startswith_def example_fields atoi_17 atoi_18 Let_def
      add_thread_def add_thread_silent_def inferior_appeared_def first_thread_of_process_def
      switch_to_thread_def ptid_build_def pid_to_ptid_def CORELOW_PID_def null_ptid_def)
  apply (simp_all add: core_open_finish_def core_open_report_def example_fields Let_def)
  apply (simp_all add: fetch_defs example_fields bfd_get_section_by_name_def zero_contents_def
      warn_def)
  done


subsection \<open>The inferior of a core without thread sections\<close>

text \<open>
  Claim C3 at a container that reports no process id and has no \<^verbatim>\<open>.reg/\<close> section,
  of an architecture whose iterator reads the registers: the open succeeds, lines
  421 to 426 make up the inferior with the process id \<^verbatim>\<open>CORELOW_PID\<close> and one
  thread \<open>(1, 0, 0)\<close>, and the fake-pid flag stays false.  With one \<^verbatim>\<open>.reg/17\<close>
  section added, the open succeeds as well and \<^verbatim>\<open>add_to_thread_list\<close> sets the flag.
\<close>

theorem core_open_fallback_inferior_not_flagged:
  "bfd_core_file_pid (example_bfd [example_section ''.reg'' 100 16] 0 (Some example_gdbarch)) = 0
   \<and> fst (core_open
        (example_env (Some (example_bfd [example_section ''.reg'' 100 16] 0 (Some example_gdbarch))))
        (Some ''core'') example_state) = None
   \<and> current_inferior (snd (core_open
        (example_env (Some (example_bfd [example_section ''.reg'' 100 16] 0 (Some example_gdbarch))))
        (Some ''core'') example_state)) = \<lparr>inf_pid = 1, inf_fake_pid_p = False\<rparr>
   \<and> thread_list (snd (core_open
        (example_env (Some (example_bfd [example_section ''.reg'' 100 16] 0 (Some example_gdbarch))))
        (Some ''core'') example_state)) = [ptid_build 1 0 0]
   \<and> fst (core_open
        (example_env (Some (example_bfd [example_section ''.reg/17'' 100 16,
           example_section ''.reg'' 100 16] 0 (Some example_gdbarch))))
        (Some ''core'') example_state) = None
   \<and> current_inferior (snd (core_open
        (example_env (Some (example_bfd [example_section ''.reg/17'' 100 16,
           example_section ''.reg'' 100 16] 0 (Some example_gdbarch))))
        (Some ''core'') example_state)) = \<lparr>inf_pid = 1, inf_fake_pid_p = True\<rparr>"
  apply (intro conjI)
  apply (simp add: example_fields)
  apply (simp_all add: core_open_def core_open_install_def example_fields example_env_def
      example_state_def example_handler_def Let_def IS_ABSOLUTE_PATH_def gdb_bfd_ref_def
      unpush_target_core_ops_def xmalloc_def fresh_block_def sniff_core_bfd_def warn_def
      push_target_def example_gdbarch_iterator)
  apply (simp_all add: core_open_threads_def init_thread_list_def bfd_map_over_sections_def
      example_fields bfd_get_section_by_name_def null_ptid_def)
  apply (simp_all add: add_to_thread_list_def startswith_def example_fields atoi_17 atoi_18 Let_def
      add_thread_def add_thread_silent_def inferior_appeared_def first_thread_of_process_def
      switch_to_thread_def ptid_build_def pid_to_ptid_def CORELOW_PID_def null_ptid_def)
  apply (simp_all add: core_open_finish_def core_open_report_def example_fields Let_def)
  apply (simp_all add: fetch_defs example_fields bfd_get_section_by_name_def zero_contents_def
      warn_def)
  done


end
